theory Spec2Isabelle
  imports Complex_Main "HOL-Library.Sublist"
begin

section \<open>The candle-driven simulator (core/backtester.py)\<close>

text \<open>
  Python floats are read as real numbers: the development is about the arithmetic and
  the control flow the code writes down, not about IEEE rounding, infinities or NaN.
  Sums are written in the order in which the source adds.  Two computations of one
  quantity that agree over the reals (the proceeds of the positions added to the cash
  one by one, against the cash plus their sum) need not agree in the code's doubles, and
  no statement below rests on such an agreement.  Every division the simulator performs
  on state that drives later decisions is guarded in the source by a positivity test,
  and the guards are kept.  Timestamps are seconds since the epoch; the calendar date of
  a timestamp is its day number.
\<close>

datatype exit_side = SL | TP | DONG
  \<comment> \<open>the strings "SL", "TP" and the forced-close marker of \<open>_close_all_positions\<close>\<close>

record Position =
  entry_time :: int
  entry_price :: real
  quantity :: real
  tp_price :: real
  sl_price :: real
  entry_fee :: real

record Trade =
  t_entry_time :: int
  t_exit_time :: int
  t_entry_price :: real
  t_exit_price :: real
  t_quantity :: real
  side :: exit_side
  pnl :: real
  pnl_pct :: "real option"
  total_fee :: real

record BacktestParams =
  initial_capital :: real
  trading_fee :: real
  slippage :: real
  risk_per_trade :: real
  max_daily_loss :: real
  max_open_trades :: int
  circuit_breaker_dd :: real
  tp_pct :: real
  sl_pct :: real

definition default_params :: BacktestParams where
  "default_params = \<lparr> initial_capital = 10000, trading_fee = 1 / 1000,
     slippage = 5 / 10000, risk_per_trade = 1 / 100, max_daily_loss = 3 / 100,
     max_open_trades = 3, circuit_breaker_dd = 1 / 10, tp_pct = 3 / 1000,
     sl_pct = 3 / 1000 \<rparr>"

text \<open>A row of the data frame.  The \<open>signal\<close> column may be absent (\<open>row.get("signal", 0)\<close>).\<close>

record candle =
  timestamp :: int
  open_price :: real
  high :: real
  low :: real
  close :: real
  signal :: "int option"

definition date_of :: "int \<Rightarrow> int" where
  "date_of t = t div 86400"

record Backtester =
  params :: BacktestParams
  cash :: real
  equity :: real
  peak_equity :: real
  positions :: "Position list"
  trades :: "Trade list"
  equity_curve :: "(int \<times> real) list"
  circuit_breaker_active :: bool
  current_date :: "int option"
  daily_pnl :: real

definition reset :: "BacktestParams \<Rightarrow> Backtester" where
  "reset p = \<lparr> params = p, cash = initial_capital p, equity = initial_capital p,
     peak_equity = initial_capital p, positions = [], trades = [], equity_curve = [],
     circuit_breaker_active = False, current_date = None, daily_pnl = 0 \<rparr>"

definition update_daily_tracking :: "int \<Rightarrow> Backtester \<Rightarrow> Backtester" where
  "update_daily_tracking current_time s =
     (let cd = date_of current_time in
      if current_date s = None \<or> Some cd \<noteq> current_date s
      then s\<lparr> current_date := Some cd, daily_pnl := 0 \<rparr>
      else s)"

text \<open>
  The exit test of \<open>_check_exits\<close> for one position: the stop-loss branch comes first,
  the take-profit branch is its \<open>elif\<close>.
\<close>

definition exit_decision :: "candle \<Rightarrow> Position \<Rightarrow> (real \<times> exit_side) option" where
  "exit_decision row pos =
     (if low row \<le> sl_price pos then Some (sl_price pos, SL)
      else if high row \<ge> tp_price pos then Some (tp_price pos, TP)
      else None)"

definition ratio_pct :: "real \<Rightarrow> real \<Rightarrow> real option" where
  "ratio_pct n d = (if d = 0 then None else Some (n / d * 100))"

text \<open>The body of the exit loop for a position that leaves: book the trade, credit the cash.\<close>

definition book_exit :: "candle \<Rightarrow> Position \<Rightarrow> real \<Rightarrow> exit_side \<Rightarrow> Backtester \<Rightarrow> Backtester" where
  "book_exit row pos exit_price0 exit_side s =
     (let exit_price = (if exit_side = TP then exit_price0 * (1 - slippage (params s))
                        else exit_price0 * (1 - slippage (params s)));
          exit_fee = exit_price * quantity pos * trading_fee (params s);
          gross_pnl = (exit_price - entry_price pos) * quantity pos;
          net_pnl = gross_pnl - entry_fee pos - exit_fee;
          trade = \<lparr> t_entry_time = entry_time pos, t_exit_time = timestamp row,
                    t_entry_price = entry_price pos, t_exit_price = exit_price,
                    t_quantity = quantity pos, side = exit_side, pnl = net_pnl,
                    pnl_pct = ratio_pct net_pnl (entry_price pos * quantity pos),
                    total_fee = entry_fee pos + exit_fee \<rparr>
      in s\<lparr> trades := trades s @ [trade],
            cash := cash s + (exit_price * quantity pos - exit_fee),
            daily_pnl := daily_pnl s + net_pnl \<rparr>)"

text \<open>
  The first loop of \<open>_check_exits\<close>: it walks the positions with their indices, books
  every exit and collects the indices of the positions that left.
\<close>

fun check_exits_loop ::
  "candle \<Rightarrow> nat \<Rightarrow> Position list \<Rightarrow> Backtester \<times> nat list \<Rightarrow> Backtester \<times> nat list" where
  "check_exits_loop row idx [] acc = acc"
| "check_exits_loop row idx (pos # rest) (s, closed_indices) =
     check_exits_loop row (Suc idx) rest
       (case exit_decision row pos of
          None \<Rightarrow> (s, closed_indices)
        | Some (exit_price0, exit_side) \<Rightarrow>
            (book_exit row pos exit_price0 exit_side s, closed_indices @ [idx]))"

definition pop :: "nat \<Rightarrow> 'a list \<Rightarrow> 'a list" where
  "pop idx xs = take idx xs @ drop (Suc idx) xs"

text \<open>The second loop removes the collected indices, highest first.\<close>

definition check_exits :: "candle \<Rightarrow> Backtester \<Rightarrow> Backtester" where
  "check_exits row s =
     (case check_exits_loop row 0 (positions s) (s, []) of
        (s', closed_indices) \<Rightarrow>
          s'\<lparr> positions := fold pop (rev (sort closed_indices)) (positions s') \<rparr>)"

text \<open>The indices the first loop collects, and the positions that stay.\<close>

fun exit_indices :: "candle \<Rightarrow> nat \<Rightarrow> Position list \<Rightarrow> nat list" where
  "exit_indices row idx [] = []"
| "exit_indices row idx (pos # rest) =
     (if exit_decision row pos \<noteq> None then [idx] else []) @ exit_indices row (Suc idx) rest"

definition stays :: "candle \<Rightarrow> Position \<Rightarrow> bool" where
  "stays row pos = (exit_decision row pos = None)"

definition check_circuit_breaker :: "Backtester \<Rightarrow> Backtester" where
  "check_circuit_breaker s =
     (if peak_equity s > 0
      then (let drawdown = (peak_equity s - equity s) / peak_equity s in
            if drawdown \<ge> circuit_breaker_dd (params s)
            then (if \<not> circuit_breaker_active s
                  then s\<lparr> circuit_breaker_active := True \<rparr> else s)
            else s)
      else s)"

definition can_open_trade :: "Backtester \<Rightarrow> bool" where
  "can_open_trade s =
     (if circuit_breaker_active s then False
      else if int (length (positions s)) \<ge> max_open_trades (params s) then False
      else if equity s > 0
              \<and> \<bar>min 0 (daily_pnl s)\<bar> / equity s \<ge> max_daily_loss (params s)
           then False
      else True)"

text \<open>
  The sizing arithmetic of \<open>_try_open_position\<close>, under the names of its local variables.
\<close>

definition entry_price_of :: "BacktestParams \<Rightarrow> candle \<Rightarrow> real" where
  "entry_price_of p row = close row * (1 + slippage p)"

definition tp_price_of :: "BacktestParams \<Rightarrow> real \<Rightarrow> real" where
  "tp_price_of p entry = entry * (1 + tp_pct p)"

definition sl_price_of :: "BacktestParams \<Rightarrow> real \<Rightarrow> real" where
  "sl_price_of p entry = entry * (1 - sl_pct p)"

definition risk_amount :: "Backtester \<Rightarrow> real" where
  "risk_amount s = equity s * risk_per_trade (params s)"

definition try_open_position :: "candle \<Rightarrow> Backtester \<Rightarrow> Backtester" where
  "try_open_position row s =
     (if \<not> can_open_trade s then s
      else
        let entry = entry_price_of (params s) row;
            tp = tp_price_of (params s) entry;
            sl = sl_price_of (params s) entry;
            sl_distance = entry - sl
        in if sl_distance \<le> 0 then s
           else
             let quantity0 = risk_amount s / sl_distance;
                 cost0 = entry * quantity0;
                 entry_fee0 = cost0 * trading_fee (params s);
                 total_cost0 = cost0 + entry_fee0;
                 quantity1 = (if total_cost0 > cash s
                              then cash s / (entry * (1 + trading_fee (params s)))
                              else quantity0)
             in if total_cost0 > cash s \<and> quantity1 \<le> 0 then s
                else
                  let cost = entry * quantity1;
                      fee = cost * trading_fee (params s);
                      total_cost = cost + fee
                  in s\<lparr> cash := cash s - total_cost,
                        positions := positions s @
                          [\<lparr> entry_time = timestamp row, entry_price = entry,
                             quantity = quantity1, tp_price = tp, sl_price = sl,
                             entry_fee = fee \<rparr>] \<rparr>)"

text \<open>\<open>_update_equity\<close>.  Python's \<open>sum\<close> starts at 0 and adds the terms from the left.\<close>

definition update_equity :: "candle \<Rightarrow> Backtester \<Rightarrow> Backtester" where
  "update_equity row s =
     (let position_value =
            foldl (\<lambda>acc v. acc + v) 0 (map (\<lambda>pos. quantity pos * close row) (positions s));
          e = cash s + position_value
      in s\<lparr> equity := e, peak_equity := max (peak_equity s) e \<rparr>)"

definition book_forced_close :: "candle \<Rightarrow> Position \<Rightarrow> Backtester \<Rightarrow> Backtester" where
  "book_forced_close row pos s =
     (let exit_price = close row * (1 - slippage (params s));
          exit_fee = exit_price * quantity pos * trading_fee (params s);
          gross_pnl = (exit_price - entry_price pos) * quantity pos;
          net_pnl = gross_pnl - entry_fee pos - exit_fee;
          trade = \<lparr> t_entry_time = entry_time pos, t_exit_time = timestamp row,
                    t_entry_price = entry_price pos, t_exit_price = exit_price,
                    t_quantity = quantity pos, side = DONG, pnl = net_pnl,
                    pnl_pct = ratio_pct net_pnl (entry_price pos * quantity pos),
                    total_fee = entry_fee pos + exit_fee \<rparr>
      in s\<lparr> trades := trades s @ [trade],
            cash := cash s + (exit_price * quantity pos - exit_fee) \<rparr>)"

definition close_all_positions :: "candle \<Rightarrow> Backtester \<Rightarrow> Backtester" where
  "close_all_positions row s =
     (let s' = fold (book_forced_close row) (positions s) s
      in s'\<lparr> positions := [], equity := cash s' \<rparr>)"

text \<open>One iteration of the loop of \<open>run\<close>, in the order the source fixes.\<close>

definition step :: "candle \<Rightarrow> Backtester \<Rightarrow> Backtester" where
  "step row s0 =
     (let s1 = update_daily_tracking (timestamp row) s0;
          s2 = check_exits row s1;
          s3 = check_circuit_breaker s2;
          s4 = (if (case signal row of None \<Rightarrow> 0 | Some v \<Rightarrow> v) = 1
                then try_open_position row s3 else s3);
          s5 = update_equity row s4
      in s5\<lparr> equity_curve := equity_curve s5 @ [(timestamp row, equity s5)] \<rparr>)"

definition run_loop :: "candle list \<Rightarrow> Backtester \<Rightarrow> Backtester" where
  "run_loop df s = fold step df s"

definition run :: "BacktestParams \<Rightarrow> candle list \<Rightarrow> Backtester" where
  "run p df =
     (let s = run_loop df (reset p)
      in if length df > 0 then close_all_positions (last df) s else s)"


section \<open>Configuration (config.py)\<close>

definition TRADING_FEE :: real where "TRADING_FEE = 1 / 1000"
definition SLIPPAGE :: real where "SLIPPAGE = 5 / 10000"
definition RISK_PER_TRADE :: real where "RISK_PER_TRADE = 1 / 100"
definition MAX_DAILY_LOSS :: real where "MAX_DAILY_LOSS = 3 / 100"
definition MAX_OPEN_TRADES :: int where "MAX_OPEN_TRADES = 3"
definition CIRCUIT_BREAKER_DD :: real where "CIRCUIT_BREAKER_DD = 1 / 10"
definition TP_PCT :: real where "TP_PCT = 3 / 1000"
definition SL_PCT :: real where "SL_PCT = 3 / 1000"
definition EMA_FAST :: int where "EMA_FAST = 9"
definition EMA_SLOW :: int where "EMA_SLOW = 21"
definition INITIAL_CAPITAL :: real where "INITIAL_CAPITAL = 10000"

text \<open>
  Python's \<open>x or d\<close> on an optional number: \<open>None\<close> and zero are falsy and give \<open>d\<close>,
  every other number gives \<open>x\<close>.
\<close>

definition py_or :: "'a::zero option \<Rightarrow> 'a \<Rightarrow> 'a" where
  "py_or x d = (case x of None \<Rightarrow> d | Some v \<Rightarrow> if v = 0 then d else v)"

section \<open>Exceptions\<close>

text \<open>
  The exceptions of the live path: the two classes of the Binance client library, the
  built-in ones the code can raise, and \<open>OtherException\<close> for every other class.
\<close>

datatype exn =
    BinanceAPIException int
  | BinanceRequestException
  | ValueError
  | IndexError
  | KeyError
  | TypeError
  | ZeroDivisionError
  | AttributeError
  | OtherException

section \<open>The live risk manager (live/risk_manager.py)\<close>

record RiskManager =
  rm_initial_capital :: real
  rm_risk_per_trade :: real
  rm_max_daily_loss :: real
  rm_max_open_trades :: int
  rm_circuit_breaker_dd :: real
  current_equity :: real
  rm_peak_equity :: real
  open_trade_count :: int
  rm_circuit_breaker_active :: bool
  rm_daily_pnl :: real
  rm_current_date :: "int option"
  daily_start_equity :: real

definition RiskManager_init ::
  "real option \<Rightarrow> real option \<Rightarrow> real option \<Rightarrow> int option \<Rightarrow> real option \<Rightarrow> RiskManager" where
  "RiskManager_init initial_capital' risk_per_trade' max_daily_loss' max_open_trades'
       circuit_breaker_dd' =
     (let ic = py_or initial_capital' INITIAL_CAPITAL in
      \<lparr> rm_initial_capital = ic,
        rm_risk_per_trade = py_or risk_per_trade' RISK_PER_TRADE,
        rm_max_daily_loss = py_or max_daily_loss' MAX_DAILY_LOSS,
        rm_max_open_trades = py_or max_open_trades' MAX_OPEN_TRADES,
        rm_circuit_breaker_dd = py_or circuit_breaker_dd' CIRCUIT_BREAKER_DD,
        current_equity = ic, rm_peak_equity = ic, open_trade_count = 0,
        rm_circuit_breaker_active = False, rm_daily_pnl = 0, rm_current_date = None,
        daily_start_equity = ic \<rparr>)"

definition rm_check_circuit_breaker :: "RiskManager \<Rightarrow> RiskManager" where
  "rm_check_circuit_breaker rm =
     (if rm_peak_equity rm \<le> 0 then rm
      else
        let drawdown = (rm_peak_equity rm - current_equity rm) / rm_peak_equity rm in
        if drawdown \<ge> rm_circuit_breaker_dd rm \<and> \<not> rm_circuit_breaker_active rm
        then rm\<lparr> rm_circuit_breaker_active := True \<rparr>
        else rm)"

definition rm_update_equity :: "real \<Rightarrow> RiskManager \<Rightarrow> RiskManager" where
  "rm_update_equity new_equity rm =
     rm_check_circuit_breaker
       (rm\<lparr> current_equity := new_equity,
            rm_peak_equity := max (rm_peak_equity rm) new_equity \<rparr>)"

definition record_trade_pnl :: "real \<Rightarrow> RiskManager \<Rightarrow> RiskManager" where
  "record_trade_pnl x rm = rm\<lparr> rm_daily_pnl := rm_daily_pnl rm + x \<rparr>"

definition trade_opened :: "RiskManager \<Rightarrow> RiskManager" where
  "trade_opened rm = rm\<lparr> open_trade_count := open_trade_count rm + 1 \<rparr>"

definition trade_closed :: "RiskManager \<Rightarrow> RiskManager" where
  "trade_closed rm = rm\<lparr> open_trade_count := max 0 (open_trade_count rm - 1) \<rparr>"

text \<open>The wall clock is an argument: \<open>now\<close> is the timestamp \<open>datetime.now\<close> returns.\<close>

definition rm_update_daily_tracking :: "int \<Rightarrow> RiskManager \<Rightarrow> RiskManager" where
  "rm_update_daily_tracking now rm =
     (let today = date_of now in
      if rm_current_date rm = None \<or> Some today \<noteq> rm_current_date rm
      then rm\<lparr> rm_current_date := Some today, rm_daily_pnl := 0,
               daily_start_equity := current_equity rm \<rparr>
      else rm)"

definition can_trade :: "int \<Rightarrow> RiskManager \<Rightarrow> bool \<times> RiskManager" where
  "can_trade now rm0 =
     (let rm = rm_update_daily_tracking now rm0 in
      if rm_circuit_breaker_active rm then (False, rm)
      else if open_trade_count rm \<ge> rm_max_open_trades rm then (False, rm)
      else if daily_start_equity rm > 0
              \<and> \<bar>min 0 (rm_daily_pnl rm)\<bar> / daily_start_equity rm \<ge> rm_max_daily_loss rm
           then (False, rm)
      else (True, rm))"

text \<open>
  The prices and the equity of the live path are Python floats, and dividing one by
  zero raises.  The first division is guarded by the test on the stop distance; the
  division of the cap by the entry price is not.
\<close>

definition calculate_position_size :: "RiskManager \<Rightarrow> real \<Rightarrow> real \<Rightarrow> exn + real" where
  "calculate_position_size rm entry sl =
     (let risk = current_equity rm * rm_risk_per_trade rm;
          sl_distance = \<bar>entry - sl\<bar>
      in if sl_distance \<le> 0 then Inr 0
         else
           let quantity0 = risk / sl_distance;
               cost = quantity0 * entry
           in if cost > current_equity rm * (95 / 100)
              then (if entry = 0 then Inl ZeroDivisionError
                    else Inr ((current_equity rm * (95 / 100)) / entry))
              else Inr quantity0)"

section \<open>The venue connector (live/execution.py)\<close>

text \<open>
  The venue is a script: the reply of \<open>client.create_order\<close> to the n-th order request
  the connector sends.  A reply is the order document or an exception.  The numeric
  fields of a document are numbers, and every fill carries its quantity and price.
\<close>

record fill =
  f_qty :: real
  f_price :: real

record order_result =
  fills :: "fill list option"
  executedQty :: "real option"
  orderId :: "string option"

datatype reply = Returns order_result | Raises exn

datatype order_side = BUY | SELL

record Connector =
  venue :: "nat \<Rightarrow> reply"
  calls :: nat
  slept :: "nat list"
  symbol_info :: "string \<rightharpoonup> nat"
  venue_symbol_info :: "string \<Rightarrow> exn + nat option"

definition MAX_RETRIES :: nat where "MAX_RETRIES = 3"
definition RETRY_DELAY_BASE :: nat where "RETRY_DELAY_BASE = 2"

definition permanent_codes :: "int set" where
  "permanent_codes = {- 2010, - 1013, - 1111}"

text \<open>
  \<open>get_symbol_info\<close> caches what the venue answers; the cached datum kept here is the
  number of decimal places of the lot step, which is all \<open>_adjust_quantity\<close> reads.
\<close>

definition get_symbol_info :: "string \<Rightarrow> Connector \<Rightarrow> exn + Connector" where
  "get_symbol_info symbol c =
     (if symbol \<in> dom (symbol_info c) then Inr c
      else case venue_symbol_info c symbol of
             Inl e \<Rightarrow> Inl e
           | Inr None \<Rightarrow> Inl ValueError
           | Inr (Some d) \<Rightarrow> Inr (c\<lparr> symbol_info := (symbol_info c)(symbol \<mapsto> d) \<rparr>))"

definition round_down :: "nat \<Rightarrow> real \<Rightarrow> real" where
  "round_down d q =
     (let scaled = q * 10 ^ d
      in real_of_int (if scaled \<ge> 0 then \<lfloor>scaled\<rfloor> else \<lceil>scaled\<rceil>) / 10 ^ d)"

definition adjust_quantity :: "Connector \<Rightarrow> string \<Rightarrow> real \<Rightarrow> real" where
  "adjust_quantity c symbol q =
     round_down (case symbol_info c symbol of None \<Rightarrow> 8 | Some d \<Rightarrow> d) q"

text \<open>
  The retry loop of \<open>place_market_order\<close>, by recursion over the attempt numbers of
  \<open>range(1, MAX_RETRIES + 1)\<close>.  Falling out of the loop would return \<open>None\<close>.
\<close>

fun place_attempts ::
  "nat list \<Rightarrow> Connector \<Rightarrow> (exn + order_result option) \<times> Connector" where
  "place_attempts [] c = (Inr None, c)"
| "place_attempts (attempt # rest) c =
     (let c1 = c\<lparr> calls := Suc (calls c) \<rparr> in
      case venue c (calls c) of
        Returns result \<Rightarrow>
          (if fills result = Some [] then (Inl IndexError, c1)
           else (Inr (Some result), c1))
      | Raises (BinanceAPIException code) \<Rightarrow>
          (if code \<in> permanent_codes then (Inl (BinanceAPIException code), c1)
           else if attempt < MAX_RETRIES
           then place_attempts rest (c1\<lparr> slept := slept c1 @ [RETRY_DELAY_BASE ^ attempt] \<rparr>)
           else (Inl (BinanceAPIException code), c1))
      | Raises BinanceRequestException \<Rightarrow>
          (if attempt < MAX_RETRIES
           then place_attempts rest (c1\<lparr> slept := slept c1 @ [RETRY_DELAY_BASE ^ attempt] \<rparr>)
           else (Inl BinanceRequestException, c1))
      | Raises e \<Rightarrow> (Inl e, c1))"

definition place_market_order ::
  "string \<Rightarrow> order_side \<Rightarrow> real \<Rightarrow> Connector \<Rightarrow> (exn + order_result option) \<times> Connector" where
  "place_market_order symbol sd qty c =
     (case get_symbol_info symbol c of
        Inl e \<Rightarrow> (Inl e, c)
      | Inr c1 \<Rightarrow>
          let adjusted_qty = adjust_quantity c1 symbol qty in
          if adjusted_qty \<le> 0 then (Inl ValueError, c1)
          else place_attempts [1 ..< MAX_RETRIES + 1] c1)"


section \<open>The order manager (live/order_manager.py)\<close>

datatype position_status = OPEN | CLOSED

record LivePosition =
  position_id :: nat
  lp_symbol :: string
  lp_entry_price :: real
  lp_quantity :: real
  lp_tp_price :: real
  lp_sl_price :: real
  lp_entry_time :: int
  entry_order_id :: string
  status :: position_status

text \<open>
  The dictionary of positions is kept in insertion order; its keys are the values of the
  running counter, so a new key is never present before.  A position object is
  identified by its index in that order.
\<close>

record OrderManager =
  connector :: Connector
  risk_manager :: RiskManager
  om_tp_pct :: real
  om_sl_pct :: real
  om_positions :: "LivePosition list"
  position_counter :: nat

definition OrderManager_init ::
  "Connector \<Rightarrow> RiskManager \<Rightarrow> real option \<Rightarrow> real option \<Rightarrow> OrderManager" where
  "OrderManager_init c rm tp' sl' =
     \<lparr> connector = c, risk_manager = rm, om_tp_pct = py_or tp' TP_PCT,
       om_sl_pct = py_or sl' SL_PCT, om_positions = [], position_counter = 0 \<rparr>"

definition open_positions :: "OrderManager \<Rightarrow> LivePosition list" where
  "open_positions om = filter (\<lambda>p. status p = OPEN) (om_positions om)"

definition open_indices :: "OrderManager \<Rightarrow> nat list" where
  "open_indices om =
     filter (\<lambda>i. status (om_positions om ! i) = OPEN) [0 ..< length (om_positions om)]"

text \<open>The average fill price of an order document, with the caller's fallback price.\<close>

definition fill_price :: "order_result \<Rightarrow> real \<Rightarrow> real" where
  "fill_price result fallback =
     (case fills result of
        None \<Rightarrow> fallback
      | Some fs \<Rightarrow>
          if fs = [] then fallback
          else
            let total_qty = sum_list (map f_qty fs);
                total_cost = sum_list (map (\<lambda>f. f_qty f * f_price f) fs)
            in if total_qty > 0 then total_cost / total_qty else fallback)"

definition fill_qty :: "order_result \<Rightarrow> real \<Rightarrow> real" where
  "fill_qty result requested =
     (case fills result of
        None \<Rightarrow> (case executedQty result of None \<Rightarrow> requested | Some q \<Rightarrow> q)
      | Some fs \<Rightarrow>
          if fs = [] then (case executedQty result of None \<Rightarrow> requested | Some q \<Rightarrow> q)
          else sum_list (map f_qty fs))"

text \<open>
  \<open>open_position\<close> returns the new position, or \<open>None\<close>; what the order placement
  raises is caught and gives \<open>None\<close>.  The sizing stands before the \<open>try\<close>, so
  an exception of the sizing leaves the method, with the state as it is by then.
\<close>

definition open_position ::
  "string \<Rightarrow> real \<Rightarrow> int \<Rightarrow> OrderManager \<Rightarrow> (exn + LivePosition option) \<times> OrderManager" where
  "open_position symbol current_price now om =
     (case can_trade now (risk_manager om) of
        (ok, rm1) \<Rightarrow>
          let om1 = om\<lparr> risk_manager := rm1 \<rparr> in
          if \<not> ok then (Inr None, om1)
          else
            let slippage_price = current_price * (1 + SLIPPAGE);
                sl0 = slippage_price * (1 - om_sl_pct om1)
            in case calculate_position_size rm1 slippage_price sl0 of
                 Inl e \<Rightarrow> (Inl e, om1)
               | Inr qty \<Rightarrow>
                   if qty \<le> 0 then (Inr None, om1)
                   else
                     (case place_market_order symbol BUY qty (connector om1) of
                        (Inl e, c1) \<Rightarrow> (Inr None, om1\<lparr> connector := c1 \<rparr>)
                      | (Inr None, c1) \<Rightarrow> (Inr None, om1\<lparr> connector := c1 \<rparr>)
                      | (Inr (Some result), c1) \<Rightarrow>
                          let actual_price = fill_price result slippage_price;
                              actual_qty = fill_qty result qty;
                              counter = Suc (position_counter om1);
                              position =
                                \<lparr> position_id = counter, lp_symbol = symbol,
                                  lp_entry_price = actual_price, lp_quantity = actual_qty,
                                  lp_tp_price = actual_price * (1 + om_tp_pct om1),
                                  lp_sl_price = actual_price * (1 - om_sl_pct om1),
                                  lp_entry_time = now,
                                  entry_order_id =
                                    (case orderId result of None \<Rightarrow> [] | Some i \<Rightarrow> i),
                                  status = OPEN \<rparr>
                          in (Inr (Some position),
                              om1\<lparr> connector := c1, position_counter := counter,
                                    om_positions := om_positions om1 @ [position],
                                    risk_manager := trade_opened rm1 \<rparr>)))"

text \<open>The exit test of \<open>check_tp_sl\<close> for one position at the current price.\<close>

definition close_reason :: "real \<Rightarrow> LivePosition \<Rightarrow> exit_side option" where
  "close_reason current_price position =
     (if current_price \<ge> lp_tp_price position then Some TP
      else if current_price \<le> lp_sl_price position then Some SL
      else None)"

definition close_position :: "nat \<Rightarrow> real \<Rightarrow> OrderManager \<Rightarrow> OrderManager" where
  "close_position i current_price om =
     (let position = om_positions om ! i in
      case place_market_order (lp_symbol position) SELL (lp_quantity position) (connector om) of
        (Inl e, c1) \<Rightarrow> om\<lparr> connector := c1 \<rparr>
      | (Inr None, c1) \<Rightarrow> om\<lparr> connector := c1 \<rparr>
      | (Inr (Some result), c1) \<Rightarrow>
          let exit_price = fill_price result current_price;
              gross_pnl = (exit_price - lp_entry_price position) * lp_quantity position;
              fee_in = lp_entry_price position * lp_quantity position * TRADING_FEE;
              fee_out = exit_price * lp_quantity position * TRADING_FEE;
              net_pnl = gross_pnl - fee_in - fee_out;
              rm1 = record_trade_pnl net_pnl (trade_closed (risk_manager om));
              rm2 = rm_update_equity (current_equity rm1 + net_pnl) rm1
          in om\<lparr> connector := c1,
                 om_positions := (om_positions om)[i := position\<lparr> status := CLOSED \<rparr>],
                 risk_manager := rm2 \<rparr>)"

fun check_tp_sl_loop :: "string \<Rightarrow> real \<Rightarrow> nat list \<Rightarrow> OrderManager \<Rightarrow> OrderManager" where
  "check_tp_sl_loop symbol current_price [] om = om"
| "check_tp_sl_loop symbol current_price (i # rest) om =
     check_tp_sl_loop symbol current_price rest
       (let position = om_positions om ! i in
        if lp_symbol position \<noteq> symbol then om
        else case close_reason current_price position of
               None \<Rightarrow> om
             | Some reason \<Rightarrow> close_position i current_price om)"

definition check_tp_sl :: "string \<Rightarrow> real \<Rightarrow> OrderManager \<Rightarrow> OrderManager" where
  "check_tp_sl symbol current_price om =
     check_tp_sl_loop symbol current_price (open_indices om) om"

section \<open>The live engine's candle callback (live/main.py)\<close>

text \<open>
  A stream event.  The signal of the strategy on the buffered candles is an input:
  indicators and signal generation are outside the execution core (\<open>None\<close> when they
  raise or return an empty frame).  \<open>k_now\<close> is the wall clock at the callback.
\<close>

record kline =
  k_open :: real
  k_high :: real
  k_low :: real
  k_close :: real
  is_closed :: bool
  k_signal :: "int option"
  k_now :: int

record LiveTradingEngine =
  engine_symbol :: string
  order_manager :: OrderManager
  candle_buffer_len :: nat

definition MIN_CANDLES :: nat where "MIN_CANDLES = 60"

definition BINANCE_SYMBOL :: string where "BINANCE_SYMBOL = ''BTCUSDT''"

text \<open>
  The constructor builds its risk manager and its order manager with no arguments; the
  connector it creates is the argument \<open>c\<close>.
\<close>

definition LiveTradingEngine_init :: "string option \<Rightarrow> Connector \<Rightarrow> LiveTradingEngine" where
  "LiveTradingEngine_init symbol' c =
     \<lparr> engine_symbol =
         (case symbol' of None \<Rightarrow> BINANCE_SYMBOL
          | Some name \<Rightarrow> if name = [] then BINANCE_SYMBOL else name),
       order_manager =
         OrderManager_init c (RiskManager_init None None None None None) None None,
       candle_buffer_len = 0 \<rparr>"

text \<open>
  The callback returns the exception that leaves it, if any, and the engine as the
  callback left it.  The stream loop logs such an exception and goes on with the next
  event.
\<close>

definition on_kline :: "kline \<Rightarrow> LiveTradingEngine \<Rightarrow> exn option \<times> LiveTradingEngine" where
  "on_kline k eng =
     (let current_price = k_close k;
          om1 = check_tp_sl (engine_symbol eng) current_price (order_manager eng);
          eng1 = eng\<lparr> order_manager := om1 \<rparr>
      in if \<not> is_closed k then (None, eng1)
         else
           let eng2 = eng1\<lparr> candle_buffer_len := min 500 (Suc (candle_buffer_len eng1)) \<rparr>
           in if candle_buffer_len eng2 < MIN_CANDLES then (None, eng2)
              else case k_signal k of
                     None \<Rightarrow> (None, eng2)
                   | Some last_signal \<Rightarrow>
                       if last_signal = 1
                       then (case open_position (engine_symbol eng2) current_price
                                    (k_now k) om1 of
                               (Inl e, om2) \<Rightarrow> (Some e, eng2\<lparr> order_manager := om2 \<rparr>)
                             | (Inr position, om2) \<Rightarrow>
                                 (None, eng2\<lparr> order_manager := om2 \<rparr>))
                       else (None, eng2))"

definition live_run :: "kline list \<Rightarrow> LiveTradingEngine \<Rightarrow> LiveTradingEngine" where
  "live_run ks eng = fold (\<lambda>k e. snd (on_kline k e)) ks eng"

section \<open>The synchronous live trader (live/live_trader.py)\<close>

text \<open>
  A Python dictionary with string keys is an association list with distinct keys; the
  values the trader stores are JSON values, and a position is such a dictionary, in
  memory as in the state file.  Serialising a document to text and parsing it back is
  the JSON library's work and is taken to return the document.
\<close>

datatype json =
    JNull
  | JBool bool
  | JNum real
  | JStr string
  | JArr "json list"
  | JObj "(string \<times> json) list"

type_synonym dict = "(string \<times> json) list"

record LiveTrader =
  api_key :: string
  api_secret :: string
  lt_symbol :: string
  ema_fast :: int
  ema_slow :: int
  lt_tp_pct :: real
  lt_sl_pct :: real
  connected :: bool
  lt_positions :: "dict list"
  trade_history :: "dict list"
  initial_equity :: real
  lt_current_equity :: real
  lt_peak_equity :: real
  lt_daily_pnl :: real
  daily_date :: "string option"
  circuit_breaker :: bool
  last_signal :: int
  last_price :: real

datatype state_file = NoFile | Unreadable | Document json

datatype write_outcome = Written | OpenFailed | DumpFailed

definition state_document :: "LiveTrader \<Rightarrow> json" where
  "state_document lt =
     JObj [(''positions'', JArr (map JObj (lt_positions lt))),
           (''initial_equity'', JNum (initial_equity lt)),
           (''peak_equity'', JNum (lt_peak_equity lt)),
           (''daily_pnl'', JNum (lt_daily_pnl lt)),
           (''daily_date'', (case daily_date lt of None \<Rightarrow> JNull | Some d \<Rightarrow> JStr d)),
           (''circuit_breaker'', JBool (circuit_breaker lt)),
           (''trade_count'', JNum (real (length (trade_history lt))))]"

text \<open>
  \<open>_save_state\<close> swallows every exception of the write.  A failed \<open>open\<close> leaves the
  file as it was, a failed \<open>json.dump\<close> leaves a truncated file.
\<close>

definition save_state :: "write_outcome \<Rightarrow> LiveTrader \<Rightarrow> state_file \<Rightarrow> state_file" where
  "save_state w lt f =
     (case w of
        Written \<Rightarrow> Document (state_document lt)
      | OpenFailed \<Rightarrow> f
      | DumpFailed \<Rightarrow> Unreadable)"

definition get :: "dict \<Rightarrow> string \<Rightarrow> json \<Rightarrow> json" where
  "get d k dflt = (case map_of d k of None \<Rightarrow> dflt | Some v \<Rightarrow> v)"

fun as_num :: "json \<Rightarrow> real option" where
  "as_num (JNum r) = Some r"
| "as_num _ = None"

fun as_bool :: "json \<Rightarrow> bool option" where
  "as_bool (JBool b) = Some b"
| "as_bool _ = None"

fun as_date :: "json \<Rightarrow> string option option" where
  "as_date JNull = Some None"
| "as_date (JStr d) = Some (Some d)"
| "as_date _ = None"

fun as_dict :: "json \<Rightarrow> dict option" where
  "as_dict (JObj d) = Some d"
| "as_dict _ = None"

fun as_dicts :: "json \<Rightarrow> dict list option" where
  "as_dicts (JArr js) =
     (if list_all (\<lambda>j. as_dict j \<noteq> None) js then Some (map (\<lambda>j. the (as_dict j)) js)
      else None)"
| "as_dicts _ = None"

text \<open>
  \<open>_load_state\<close>.  A missing or unparsable file, and a document that is not an object,
  leave the trader as it is (the source swallows the exception).  The fields of the
  record are typed; a document holding a value of another JSON type under one of the
  keys has no counterpart in the record and the result is \<open>None\<close>.
\<close>

definition load_state :: "state_file \<Rightarrow> LiveTrader \<Rightarrow> LiveTrader option" where
  "load_state f lt =
     (case f of
        NoFile \<Rightarrow> Some lt
      | Unreadable \<Rightarrow> Some lt
      | Document (JObj state) \<Rightarrow>
          (case (as_dicts (get state ''positions'' (JArr [])),
                 as_num (get state ''initial_equity'' (JNum 0)),
                 as_num (get state ''peak_equity'' (JNum 0)),
                 as_num (get state ''daily_pnl'' (JNum 0)),
                 as_date (get state ''daily_date'' JNull),
                 as_bool (get state ''circuit_breaker'' (JBool False))) of
             (Some ps, Some ie, Some pe, Some dp, Some dd, Some cb) \<Rightarrow>
               Some (lt\<lparr> lt_positions := ps, initial_equity := ie, lt_peak_equity := pe,
                         lt_daily_pnl := dp, daily_date := dd, circuit_breaker := cb \<rparr>)
           | _ \<Rightarrow> None)
      | Document _ \<Rightarrow> Some lt)"

definition upper_char :: "char \<Rightarrow> char" where
  "upper_char c =
     (let n = (of_char c :: nat) in if 97 \<le> n \<and> n \<le> 122 then char_of (n - 32) else c)"

definition LiveTrader_fields ::
  "string \<Rightarrow> string \<Rightarrow> string \<Rightarrow> int option \<Rightarrow> int option \<Rightarrow> real option \<Rightarrow> real option
     \<Rightarrow> LiveTrader" where
  "LiveTrader_fields key secret symbol ema_fast' ema_slow' tp_pct' sl_pct' =
     \<lparr> api_key = key, api_secret = secret, lt_symbol = map upper_char symbol,
       ema_fast = py_or ema_fast' EMA_FAST, ema_slow = py_or ema_slow' EMA_SLOW,
       lt_tp_pct = py_or tp_pct' TP_PCT, lt_sl_pct = py_or sl_pct' SL_PCT,
       connected = False, lt_positions = [], trade_history = [], initial_equity = 0,
       lt_current_equity = 0, lt_peak_equity = 0, lt_daily_pnl = 0, daily_date = None,
       circuit_breaker = False, last_signal = 0, last_price = 0 \<rparr>"

definition LiveTrader_init ::
  "state_file \<Rightarrow> string \<Rightarrow> string \<Rightarrow> string \<Rightarrow> int option \<Rightarrow> int option \<Rightarrow> real option
     \<Rightarrow> real option \<Rightarrow> LiveTrader option" where
  "LiveTrader_init f key secret symbol ema_fast' ema_slow' tp_pct' sl_pct' =
     load_state f (LiveTrader_fields key secret symbol ema_fast' ema_slow' tp_pct' sl_pct')"

definition lt_can_trade :: "LiveTrader \<Rightarrow> bool" where
  "lt_can_trade lt =
     (if circuit_breaker lt then False
      else if int (length (lt_positions lt)) \<ge> MAX_OPEN_TRADES then False
      else if lt_current_equity lt > 0
              \<and> \<bar>min 0 (lt_daily_pnl lt)\<bar> / lt_current_equity lt \<ge> MAX_DAILY_LOSS
           then False
      else True)"


definition num_field :: "dict \<Rightarrow> string \<Rightarrow> exn + real" where
  "num_field d k =
     (case map_of d k of
        None \<Rightarrow> Inl KeyError
      | Some (JNum r) \<Rightarrow> Inr r
      | Some _ \<Rightarrow> Inl TypeError)"

text \<open>The exit test of \<open>_check_tp_sl\<close> for one position at the last ticker price.\<close>

definition lt_exit_reason :: "real \<Rightarrow> dict \<Rightarrow> exn + exit_side option" where
  "lt_exit_reason price pos =
     (case num_field pos ''tp_price'' of
        Inl e \<Rightarrow> Inl e
      | Inr tp \<Rightarrow>
          if price \<ge> tp then Inr (Some TP)
          else (case num_field pos ''sl_price'' of
                  Inl e \<Rightarrow> Inl e
                | Inr sl \<Rightarrow> if price \<le> sl then Inr (Some SL) else Inr None))"

text \<open>
  \<open>_check_tp_sl\<close>.  The method \<open>_close_position\<close> (the sell order and its bookkeeping,
  which catches its own exceptions) is the argument \<open>close_pos\<close>.  An exception of the
  exit test leaves the loop before any position is removed.
\<close>

fun lt_check_tp_sl_loop ::
  "(dict \<Rightarrow> exit_side \<Rightarrow> LiveTrader \<Rightarrow> LiveTrader) \<Rightarrow> dict list \<Rightarrow> LiveTrader \<times> dict list
     \<Rightarrow> exn option \<times> LiveTrader \<times> dict list" where
  "lt_check_tp_sl_loop close_pos [] acc = (None, acc)"
| "lt_check_tp_sl_loop close_pos (pos # rest) (lt, closed_list) =
     (case lt_exit_reason (last_price lt) pos of
        Inl e \<Rightarrow> (Some e, lt, closed_list)
      | Inr None \<Rightarrow> lt_check_tp_sl_loop close_pos rest (lt, closed_list)
      | Inr (Some reason) \<Rightarrow>
          lt_check_tp_sl_loop close_pos rest (close_pos pos reason lt, closed_list @ [pos]))"

definition lt_check_tp_sl ::
  "(dict \<Rightarrow> exit_side \<Rightarrow> LiveTrader \<Rightarrow> LiveTrader) \<Rightarrow> LiveTrader \<Rightarrow> exn option \<times> LiveTrader" where
  "lt_check_tp_sl close_pos lt =
     (case lt_check_tp_sl_loop close_pos (lt_positions lt) (lt, []) of
        (Some e, lt', closed_list) \<Rightarrow> (Some e, lt')
      | (None, lt', closed_list) \<Rightarrow>
          (None, lt'\<lparr> lt_positions := fold remove1 closed_list (lt_positions lt') \<rparr>))"


section \<open>Predicates of the statements\<close>

text \<open>
  The bookkeeping of the live path agrees with its positions: the risk manager's
  counter is the number of open positions, and it is within the limit.
\<close>

definition live_inv :: "OrderManager \<Rightarrow> bool" where
  "live_inv om \<longleftrightarrow>
     open_trade_count (risk_manager om) = int (length (open_positions om))
     \<and> open_trade_count (risk_manager om) \<le> rm_max_open_trades (risk_manager om)"

text \<open>
  The two kinds of venue error the retry loop tells apart: a rejection with one of the
  permanent codes, and the retryable errors (a request error, or an API error with any
  other code).
\<close>

definition permanent :: "reply \<Rightarrow> bool" where
  "permanent r \<longleftrightarrow>
     (case r of Raises (BinanceAPIException code) \<Rightarrow> code \<in> permanent_codes | _ \<Rightarrow> False)"

definition transient :: "reply \<Rightarrow> bool" where
  "transient r \<longleftrightarrow>
     (case r of
        Raises (BinanceAPIException code) \<Rightarrow> code \<notin> permanent_codes
      | Raises BinanceRequestException \<Rightarrow> True
      | _ \<Rightarrow> False)"

section \<open>Data of the examples\<close>

text \<open>A candle at 100 that carries a buy signal.\<close>

definition flat_candle :: candle where
  "flat_candle = \<lparr> timestamp = 0, open_price = 100, high = 100, low = 100, close = 100,
     signal = Some 1 \<rparr>"

text \<open>
  Sizing: entry 100 and stop 99 (no slippage, stop fraction 1 percent), without and
  with the default fee; and a configuration whose stop fraction is zero.
\<close>

definition scenario_a_params :: BacktestParams where
  "scenario_a_params = default_params\<lparr> trading_fee := 0, slippage := 0, sl_pct := 1 / 100 \<rparr>"

definition scenario_a_fee_params :: BacktestParams where
  "scenario_a_fee_params = default_params\<lparr> slippage := 0, sl_pct := 1 / 100 \<rparr>"

definition no_stop_params :: BacktestParams where
  "no_stop_params = default_params\<lparr> sl_pct := 0 \<rparr>"





text \<open>
  Drawdown: breaker threshold 10 percent, capital 10000, no fee and no slippage, half
  of the equity at risk with the stop at half the entry price.  The first candle buys
  100 units at 100; the second closes at 89 and marks the equity down to 8900; the
  third closes at 89 again.  The three states are the ledger after each candle.
\<close>

definition scenario_b_params :: BacktestParams where
  "scenario_b_params =
     \<lparr> initial_capital = 10000, trading_fee = 0, slippage = 0, risk_per_trade = 1 / 2,
       max_daily_loss = 3 / 100, max_open_trades = 3, circuit_breaker_dd = 1 / 10,
       tp_pct = 1 / 2, sl_pct = 1 / 2 \<rparr>"

definition scenario_b_candle_1 :: candle where
  "scenario_b_candle_1 = flat_candle"

definition scenario_b_candle_2 :: candle where
  "scenario_b_candle_2 = \<lparr> timestamp = 60, open_price = 100, high = 100, low = 89, close = 89,
     signal = Some 0 \<rparr>"

definition scenario_b_candle_3 :: candle where
  "scenario_b_candle_3 = \<lparr> timestamp = 120, open_price = 89, high = 89, low = 89, close = 89,
     signal = Some 0 \<rparr>"

definition scenario_b_position :: Position where
  "scenario_b_position = \<lparr> entry_time = 0, entry_price = 100, quantity = 100,
     tp_price = 150, sl_price = 50, entry_fee = 0 \<rparr>"

definition scenario_b_after_1 :: Backtester where
  "scenario_b_after_1 =
     \<lparr> params = scenario_b_params, cash = 0, equity = 10000, peak_equity = 10000,
       positions = [scenario_b_position], trades = [], equity_curve = [(0, 10000)],
       circuit_breaker_active = False, current_date = Some 0, daily_pnl = 0 \<rparr>"

definition scenario_b_after_2 :: Backtester where
  "scenario_b_after_2 =
     \<lparr> params = scenario_b_params, cash = 0, equity = 8900, peak_equity = 10000,
       positions = [scenario_b_position], trades = [],
       equity_curve = [(0, 10000), (60, 8900)],
       circuit_breaker_active = False, current_date = Some 0, daily_pnl = 0 \<rparr>"

definition scenario_b_after_3 :: Backtester where
  "scenario_b_after_3 =
     \<lparr> params = scenario_b_params, cash = 0, equity = 8900, peak_equity = 10000,
       positions = [scenario_b_position], trades = [],
       equity_curve = [(0, 10000), (60, 8900), (120, 8900)],
       circuit_breaker_active = True, current_date = Some 0, daily_pnl = 0 \<rparr>"




text \<open>
  Venues: one that rejects every order with the insufficient-balance code, one whose
  every request fails, and one that answers the third request after two rate-limit
  errors.  A fresh connector on a venue has sent nothing and knows the symbol.
\<close>

definition rejecting_venue :: "nat \<Rightarrow> reply" where
  "rejecting_venue = (\<lambda>n. Raises (BinanceAPIException (- 2010)))"

definition failing_venue :: "nat \<Rightarrow> reply" where
  "failing_venue = (\<lambda>n. Raises BinanceRequestException)"

definition filled_order :: order_result where
  "filled_order = \<lparr> fills = None, executedQty = Some 1, orderId = Some ''7'' \<rparr>"

definition recovering_venue :: "nat \<Rightarrow> reply" where
  "recovering_venue =
     (\<lambda>n. if n < 2 then Raises (BinanceAPIException (- 1003)) else Returns filled_order)"

definition fresh_connector :: "(nat \<Rightarrow> reply) \<Rightarrow> Connector" where
  "fresh_connector v =
     \<lparr> venue = v, calls = 0, slept = [], symbol_info = [''BTCUSDT'' \<mapsto> 5],
       venue_symbol_info = (\<lambda>name. Inr None) \<rparr>"

section \<open>The exit pass of the simulator\<close>

lemma pop_Suc_Cons: "pop (Suc i) (x # xs) = x # pop i xs"
  by (simp add: pop_def)

lemma pop_0_Cons: "pop 0 (x # xs) = xs"
  by (simp add: pop_def)

lemma foldr_pop_map_Suc: "foldr pop (map Suc js) (x # xs) = x # foldr pop js xs"
  by (induction js) (simp_all add: pop_Suc_Cons)

lemma exit_indices_Suc: "exit_indices row (Suc idx) ps = map Suc (exit_indices row idx ps)"
  by (induction ps arbitrary: idx) auto

lemma foldr_pop_exit_indices:
  "foldr pop (exit_indices row 0 ps) ps = filter (stays row) ps"
proof (induction ps)
  case Nil
  then show ?case by simp
next
  case (Cons p ps)
  have "exit_indices row (Suc 0) ps = map Suc (exit_indices row 0 ps)"
    by (rule exit_indices_Suc)
  with Cons show ?case
    by (simp add: foldr_pop_map_Suc pop_0_Cons stays_def)
qed

lemma exit_indices_ge: "i \<in> set (exit_indices row idx ps) \<Longrightarrow> idx \<le> i"
  by (induction ps arbitrary: idx) (auto split: if_splits dest: Suc_leD)

lemma sorted_exit_indices: "sorted (exit_indices row idx ps)"
proof (induction ps arbitrary: idx)
  case Nil
  then show ?case by simp
next
  case (Cons p ps)
  have "\<forall>i \<in> set (exit_indices row (Suc idx) ps). idx \<le> i"
    using exit_indices_ge Suc_leD by blast
  with Cons show ?case by simp
qed

lemma check_exits_loop_indices:
  "snd (check_exits_loop row idx ps (s, ci)) = ci @ exit_indices row idx ps"
  by (induction ps arbitrary: idx s ci) (auto split: option.splits)

lemma book_exit_fields [simp]:
  "params (book_exit row pos x sd s) = params s"
  "positions (book_exit row pos x sd s) = positions s"
  "equity (book_exit row pos x sd s) = equity s"
  "peak_equity (book_exit row pos x sd s) = peak_equity s"
  "circuit_breaker_active (book_exit row pos x sd s) = circuit_breaker_active s"
  "current_date (book_exit row pos x sd s) = current_date s"
  "equity_curve (book_exit row pos x sd s) = equity_curve s"
  by (simp_all add: book_exit_def Let_def)

lemma check_exits_loop_fields:
  "params (fst (check_exits_loop row idx ps (s, ci))) = params s \<and>
   positions (fst (check_exits_loop row idx ps (s, ci))) = positions s \<and>
   equity (fst (check_exits_loop row idx ps (s, ci))) = equity s \<and>
   peak_equity (fst (check_exits_loop row idx ps (s, ci))) = peak_equity s \<and>
   circuit_breaker_active (fst (check_exits_loop row idx ps (s, ci))) = circuit_breaker_active s \<and>
   current_date (fst (check_exits_loop row idx ps (s, ci))) = current_date s \<and>
   equity_curve (fst (check_exits_loop row idx ps (s, ci))) = equity_curve s"
  by (induction ps arbitrary: idx s ci) (auto split: option.splits)

lemma positions_check_exits:
  "positions (check_exits row s) = filter (stays row) (positions s)"
proof -
  obtain s' ci where L: "check_exits_loop row 0 (positions s) (s, []) = (s', ci)"
    by (cases "check_exits_loop row 0 (positions s) (s, [])")
  have ci: "ci = exit_indices row 0 (positions s)"
    using check_exits_loop_indices [of row 0 "positions s" s "[]"] L by simp
  have ps: "positions s' = positions s"
    using check_exits_loop_fields [of row 0 "positions s" s "[]"] L by simp
  have "sort ci = ci"
    unfolding ci by (rule sorted_sort_id) (rule sorted_exit_indices)
  then show ?thesis
    using L ci ps by (simp add: check_exits_def foldr_pop_exit_indices flip: foldr_conv_fold)
qed


section \<open>Bookkeeping of one candle\<close>

lemma update_daily_tracking_fields [simp]:
  "params (update_daily_tracking t s) = params s"
  "positions (update_daily_tracking t s) = positions s"
  "cash (update_daily_tracking t s) = cash s"
  "equity (update_daily_tracking t s) = equity s"
  "peak_equity (update_daily_tracking t s) = peak_equity s"
  "circuit_breaker_active (update_daily_tracking t s) = circuit_breaker_active s"
  "trades (update_daily_tracking t s) = trades s"
  "equity_curve (update_daily_tracking t s) = equity_curve s"
  by (simp_all add: update_daily_tracking_def Let_def)

lemma check_exits_fields [simp]:
  "params (check_exits row s) = params s"
  "equity (check_exits row s) = equity s"
  "peak_equity (check_exits row s) = peak_equity s"
  "circuit_breaker_active (check_exits row s) = circuit_breaker_active s"
  "current_date (check_exits row s) = current_date s"
  "equity_curve (check_exits row s) = equity_curve s"
  using check_exits_loop_fields [of row 0 "positions s" s "[]"]
  by (auto simp: check_exits_def split: prod.splits)

lemma check_circuit_breaker_fields [simp]:
  "params (check_circuit_breaker s) = params s"
  "positions (check_circuit_breaker s) = positions s"
  "cash (check_circuit_breaker s) = cash s"
  "equity (check_circuit_breaker s) = equity s"
  "peak_equity (check_circuit_breaker s) = peak_equity s"
  "daily_pnl (check_circuit_breaker s) = daily_pnl s"
  "current_date (check_circuit_breaker s) = current_date s"
  "trades (check_circuit_breaker s) = trades s"
  "equity_curve (check_circuit_breaker s) = equity_curve s"
  by (simp_all add: check_circuit_breaker_def Let_def)

lemma try_open_position_fields [simp]:
  "params (try_open_position row s) = params s"
  "equity (try_open_position row s) = equity s"
  "peak_equity (try_open_position row s) = peak_equity s"
  "circuit_breaker_active (try_open_position row s) = circuit_breaker_active s"
  "daily_pnl (try_open_position row s) = daily_pnl s"
  "current_date (try_open_position row s) = current_date s"
  "trades (try_open_position row s) = trades s"
  "equity_curve (try_open_position row s) = equity_curve s"
  by (simp_all add: try_open_position_def Let_def)

lemma update_equity_fields [simp]:
  "params (update_equity row s) = params s"
  "positions (update_equity row s) = positions s"
  "cash (update_equity row s) = cash s"
  "circuit_breaker_active (update_equity row s) = circuit_breaker_active s"
  "daily_pnl (update_equity row s) = daily_pnl s"
  "current_date (update_equity row s) = current_date s"
  "trades (update_equity row s) = trades s"
  "equity_curve (update_equity row s) = equity_curve s"
  by (simp_all add: update_equity_def Let_def)

lemma params_step [simp]: "params (step row s) = params s"
  by (simp add: step_def Let_def)

lemma params_run_loop [simp]: "params (run_loop df s) = params s"
  unfolding run_loop_def by (induction df arbitrary: s) simp_all


lemma run_loop_Cons: "run_loop (row # df) s = run_loop df (step row s)"
  by (simp add: run_loop_def)

lemma run_loop_Nil: "run_loop [] s = s"
  by (simp add: run_loop_def)

lemma can_open_trade_room:
  "can_open_trade s \<Longrightarrow> int (length (positions s)) < max_open_trades (params s)"
  by (simp add: can_open_trade_def split: if_splits)

lemma try_open_position_length:
  "length (positions (try_open_position row s)) = length (positions s)
   \<or> (can_open_trade s \<and> length (positions (try_open_position row s)) = Suc (length (positions s)))"
  by (simp add: try_open_position_def Let_def)

lemma try_open_position_bound:
  assumes "int (length (positions s)) \<le> max_open_trades (params s)"
  shows "int (length (positions (try_open_position row s))) \<le> max_open_trades (params s)"
  using assms try_open_position_length [of row s] can_open_trade_room [of s] by auto

lemma check_exits_length: "length (positions (check_exits row s)) \<le> length (positions s)"
  by (simp add: positions_check_exits)

lemma positions_step:
  "positions (step row s) =
     positions ((if (case signal row of None \<Rightarrow> 0 | Some v \<Rightarrow> v) = 1 then try_open_position row else id)
       (check_circuit_breaker (check_exits row (update_daily_tracking (timestamp row) s))))"
  by (simp add: step_def Let_def)

lemma step_bound:
  assumes "int (length (positions s)) \<le> max_open_trades (params s)"
  shows "int (length (positions (step row s))) \<le> max_open_trades (params s)"
proof -
  let ?s3 = "check_circuit_breaker (check_exits row (update_daily_tracking (timestamp row) s))"
  have "length (positions ?s3) \<le> length (positions s)"
    using check_exits_length [of row "update_daily_tracking (timestamp row) s"] by simp
  then have b: "int (length (positions ?s3)) \<le> max_open_trades (params ?s3)"
    using assms by simp
  show ?thesis
    using b try_open_position_bound [OF b, of row] by (simp add: positions_step)
qed

lemma run_loop_bound:
  assumes "int (length (positions s)) \<le> max_open_trades (params s)"
  shows "int (length (positions (run_loop df s))) \<le> max_open_trades (params s)"
  using assms
proof (induction df arbitrary: s)
  case Nil
  then show ?case by (simp add: run_loop_Nil)
next
  case (Cons row df)
  from step_bound [OF Cons.prems, of row]
  have "int (length (positions (step row s))) \<le> max_open_trades (params (step row s))" by simp
  from Cons.IH [OF this] show ?case by (simp add: run_loop_Cons)
qed

lemma positions_close_all [simp]: "positions (close_all_positions row s) = []"
  by (simp add: close_all_positions_def Let_def)

lemma positions_reset [simp]: "positions (reset p) = []" "params (reset p) = p"
  by (simp_all add: reset_def)

lemma run_bound:
  assumes "0 \<le> max_open_trades p"
  shows "int (length (positions (run_loop df (reset p)))) \<le> max_open_trades p"
    and "int (length (positions (run p df))) \<le> max_open_trades p"
proof -
  have "int (length (positions (reset p))) \<le> max_open_trades (params (reset p))"
    using assms by simp
  from run_loop_bound [OF this, of df]
  show "int (length (positions (run_loop df (reset p)))) \<le> max_open_trades p" by simp
  then show "int (length (positions (run p df))) \<le> max_open_trades p"
    using assms by (auto simp add: run_def Let_def)
qed


section \<open>The live bookkeeping invariant\<close>

lemma rm_update_daily_tracking_fields [simp]:
  "open_trade_count (rm_update_daily_tracking now rm) = open_trade_count rm"
  "rm_max_open_trades (rm_update_daily_tracking now rm) = rm_max_open_trades rm"
  "rm_circuit_breaker_active (rm_update_daily_tracking now rm) = rm_circuit_breaker_active rm"
  "current_equity (rm_update_daily_tracking now rm) = current_equity rm"
  "rm_peak_equity (rm_update_daily_tracking now rm) = rm_peak_equity rm"
  "rm_max_daily_loss (rm_update_daily_tracking now rm) = rm_max_daily_loss rm"
  "rm_risk_per_trade (rm_update_daily_tracking now rm) = rm_risk_per_trade rm"
  by (simp_all add: rm_update_daily_tracking_def Let_def)

lemma can_trade_state: "snd (can_trade now rm) = rm_update_daily_tracking now rm"
  by (simp add: can_trade_def Let_def)

lemma can_trade_room:
  "fst (can_trade now rm) \<Longrightarrow> open_trade_count rm < rm_max_open_trades rm"
  by (simp add: can_trade_def Let_def split: if_splits)

lemma rm_check_circuit_breaker_fields [simp]:
  "open_trade_count (rm_check_circuit_breaker rm) = open_trade_count rm"
  "rm_max_open_trades (rm_check_circuit_breaker rm) = rm_max_open_trades rm"
  by (simp_all add: rm_check_circuit_breaker_def Let_def)

lemma rm_update_equity_fields [simp]:
  "open_trade_count (rm_update_equity e rm) = open_trade_count rm"
  "rm_max_open_trades (rm_update_equity e rm) = rm_max_open_trades rm"
  by (simp_all add: rm_update_equity_def)

lemma open_position_inv:
  assumes "live_inv om"
  shows "live_inv (snd (open_position symbol price now om))"
proof -
  obtain ok rm1 where ct: "can_trade now (risk_manager om) = (ok, rm1)"
    by (cases "can_trade now (risk_manager om)")
  have rm1: "rm1 = rm_update_daily_tracking now (risk_manager om)"
    using can_trade_state [of now "risk_manager om"] ct by simp
  have room: "ok \<Longrightarrow> open_trade_count (risk_manager om) < rm_max_open_trades (risk_manager om)"
    using can_trade_room [of now "risk_manager om"] ct by simp
  show ?thesis
    using assms ct rm1 room
    by (auto simp: open_position_def Let_def live_inv_def open_positions_def trade_opened_def
             split: prod.splits sum.splits option.splits)
qed

lemma length_filter_close:
  assumes "i < length xs" and "status (xs ! i) = OPEN"
  shows "length (filter (\<lambda>p. status p = OPEN) (xs[i := (xs ! i)\<lparr> status := CLOSED \<rparr>]))
         = length (filter (\<lambda>p. status p = OPEN) xs) - 1"
  using assms
proof (induction xs arbitrary: i)
  case Nil
  then show ?case by simp
next
  case (Cons x xs)
  show ?case
  proof (cases i)
    case 0
    with Cons.prems show ?thesis by simp
  next
    case (Suc j)
    with Cons.prems have j: "j < length xs" "status (xs ! j) = OPEN" by simp_all
    then have "xs ! j \<in> set (filter (\<lambda>p. status p = OPEN) xs)" by simp
    then have "0 < length (filter (\<lambda>p. status p = OPEN) xs)"
      by (metis length_pos_if_in_set)
    with Cons.IH [OF j] Suc show ?thesis by simp
  qed
qed

lemma close_position_inv:
  assumes "live_inv om" and "i < length (om_positions om)"
    and "status (om_positions om ! i) = OPEN"
  shows "live_inv (close_position i price om)"
proof -
  have "om_positions om ! i \<in> set (filter (\<lambda>p. status p = OPEN) (om_positions om))"
    using assms(2,3) by simp
  then have pos: "0 < length (filter (\<lambda>p. status p = OPEN) (om_positions om))"
    by (metis length_pos_if_in_set)
  then have one: "1 \<le> int (length (filter (\<lambda>p. status p = OPEN) (om_positions om)))"
    by linarith
  have cnt: "int (length (filter (\<lambda>p. status p = OPEN)
                 ((om_positions om)[i := (om_positions om ! i)\<lparr> status := CLOSED \<rparr>])))
             = int (length (filter (\<lambda>p. status p = OPEN) (om_positions om))) - 1"
    using pos length_filter_close [OF assms(2,3)] by linarith
  show ?thesis
    using assms(1) one cnt
    by (auto simp: close_position_def Let_def live_inv_def open_positions_def trade_closed_def
                   record_trade_pnl_def
             split: prod.splits sum.splits option.splits)
qed

lemma close_position_others:
  "length (om_positions (close_position i price om)) = length (om_positions om)"
  "j \<noteq> i \<Longrightarrow> om_positions (close_position i price om) ! j = om_positions om ! j"
  by (auto simp: close_position_def Let_def split: prod.splits sum.splits option.splits)

lemma check_tp_sl_loop_inv:
  assumes "live_inv om" and "distinct is"
    and "\<forall>i \<in> set is. i < length (om_positions om) \<and> status (om_positions om ! i) = OPEN"
  shows "live_inv (check_tp_sl_loop symbol price is om)"
  using assms
proof (induction "is" arbitrary: om)
  case Nil
  then show ?case by simp
next
  case (Cons i rest)
  let ?om' = "(let position = om_positions om ! i in
        if lp_symbol position \<noteq> symbol then om
        else case close_reason price position of
               None \<Rightarrow> om
             | Some reason \<Rightarrow> close_position i price om)"
  have i: "i < length (om_positions om)" "status (om_positions om ! i) = OPEN"
    using Cons.prems(3) by simp_all
  have "?om' = om \<or> ?om' = close_position i price om"
    by (simp add: Let_def split: option.splits)
  then have inv: "live_inv ?om'"
    using Cons.prems(1) close_position_inv [OF Cons.prems(1) i] by auto
  have others: "\<forall>j \<in> set rest. j < length (om_positions ?om')
                  \<and> status (om_positions ?om' ! j) = OPEN"
  proof
    fix j assume j: "j \<in> set rest"
    then have "j \<noteq> i" using Cons.prems(2) by auto
    moreover have "j < length (om_positions om) \<and> status (om_positions om ! j) = OPEN"
      using Cons.prems(3) j by simp
    ultimately show "j < length (om_positions ?om') \<and> status (om_positions ?om' ! j) = OPEN"
      by (simp add: Let_def close_position_others split: option.splits)
  qed
  have "distinct rest" using Cons.prems(2) by simp
  from Cons.IH [OF inv this others] show ?case by simp
qed

lemma check_tp_sl_inv:
  assumes "live_inv om"
  shows "live_inv (check_tp_sl symbol price om)"
  unfolding check_tp_sl_def
  by (rule check_tp_sl_loop_inv [OF assms]) (simp_all add: open_indices_def)

lemma on_kline_order_manager:
  "order_manager (snd (on_kline k eng))
     = check_tp_sl (engine_symbol eng) (k_close k) (order_manager eng)
   \<or> order_manager (snd (on_kline k eng))
     = snd (open_position (engine_symbol eng) (k_close k) (k_now k)
              (check_tp_sl (engine_symbol eng) (k_close k) (order_manager eng)))"
  by (auto simp: on_kline_def Let_def split: option.splits prod.splits sum.splits)

lemma on_kline_inv:
  assumes "live_inv (order_manager eng)"
  shows "live_inv (order_manager (snd (on_kline k eng)))"
  using check_tp_sl_inv [OF assms, of "engine_symbol eng" "k_close k"]
    open_position_inv [of "check_tp_sl (engine_symbol eng) (k_close k) (order_manager eng)"
      "engine_symbol eng" "k_close k" "k_now k"]
  by (auto simp: on_kline_def Let_def split: option.splits prod.splits sum.splits)

lemma live_run_inv:
  assumes "live_inv (order_manager eng)"
  shows "live_inv (order_manager (live_run ks eng))"
  using assms unfolding live_run_def
  by (induction ks arbitrary: eng) (simp_all add: on_kline_inv)

lemma live_inv_init: "live_inv (order_manager (LiveTradingEngine_init symbol' c))"
  by (simp add: LiveTradingEngine_init_def OrderManager_init_def RiskManager_init_def
        live_inv_def open_positions_def py_or_def MAX_OPEN_TRADES_def Let_def)


section \<open>Open positions stay within the limit\<close>

lemma open_position_adds_one:
  "length (open_positions (snd (open_position symbol price now om))) = length (open_positions om)
   \<or> (fst (can_trade now (risk_manager om))
       \<and> length (open_positions (snd (open_position symbol price now om)))
           = Suc (length (open_positions om)))"
  by (auto simp: open_position_def Let_def open_positions_def
           split: prod.splits sum.splits option.splits)

lemma open_position_limit [simp]:
  "rm_max_open_trades (risk_manager (snd (open_position symbol price now om)))
     = rm_max_open_trades (risk_manager om)"
proof -
  obtain ok rm1 where ct: "can_trade now (risk_manager om) = (ok, rm1)"
    by (cases "can_trade now (risk_manager om)")
  have rm1: "rm1 = rm_update_daily_tracking now (risk_manager om)"
    using can_trade_state [of now "risk_manager om"] ct by simp
  show ?thesis
    using ct rm1
    by (auto simp: open_position_def Let_def trade_opened_def
             split: prod.splits sum.splits option.splits)
qed

lemma close_position_limit [simp]:
  "rm_max_open_trades (risk_manager (close_position i price om))
     = rm_max_open_trades (risk_manager om)"
  by (auto simp: close_position_def Let_def trade_closed_def record_trade_pnl_def
           split: prod.splits sum.splits option.splits)

lemma check_tp_sl_loop_limit [simp]:
  "rm_max_open_trades (risk_manager (check_tp_sl_loop symbol price is om))
     = rm_max_open_trades (risk_manager om)"
  by (induction "is" arbitrary: om) (simp_all add: Let_def split: option.splits)

lemma on_kline_limit [simp]:
  "rm_max_open_trades (risk_manager (order_manager (snd (on_kline k eng))))
     = rm_max_open_trades (risk_manager (order_manager eng))"
  using on_kline_order_manager [of k eng] check_tp_sl_loop_limit
  by (auto simp: check_tp_sl_def)

lemma live_run_limit [simp]:
  "rm_max_open_trades (risk_manager (order_manager (live_run ks eng)))
     = rm_max_open_trades (risk_manager (order_manager eng))"
  unfolding live_run_def by (induction ks arbitrary: eng) simp_all

lemma init_limit [simp]:
  "rm_max_open_trades (risk_manager (order_manager (LiveTradingEngine_init symbol' c)))
     = MAX_OPEN_TRADES"
  by (simp add: LiveTradingEngine_init_def OrderManager_init_def RiskManager_init_def
        py_or_def Let_def)

text \<open>
  C1.  The number of open positions never exceeds the limit.  In the simulator an open
  is admitted only below the limit and adds at most one position, so every run that
  starts from a non-negative limit stays within it after every candle and after the
  final forced close.  In the live path the risk manager admits only below its limit,
  an admitted open adds one open position, and after every stream event of an engine
  the counter equals the number of open positions and is at most the limit; the
  synchronous live trader, too, admits only below the limit.
\<close>

theorem open_positions_bounded:
  "(can_open_trade s \<longrightarrow> int (length (positions s)) < max_open_trades (params s))
   \<and> (length (positions (try_open_position row s)) = length (positions s)
      \<or> can_open_trade s
        \<and> length (positions (try_open_position row s)) = Suc (length (positions s)))
   \<and> (0 \<le> max_open_trades p \<longrightarrow>
        int (length (positions (run_loop df (reset p)))) \<le> max_open_trades p
        \<and> int (length (positions (run p df))) \<le> max_open_trades p)
   \<and> (fst (can_trade now rm) \<longrightarrow> open_trade_count rm < rm_max_open_trades rm)
   \<and> (lt_can_trade lt \<longrightarrow> int (length (lt_positions lt)) < MAX_OPEN_TRADES)
   \<and> (length (open_positions (snd (open_position smb price now om)))
         = length (open_positions om)
      \<or> fst (can_trade now (risk_manager om))
        \<and> length (open_positions (snd (open_position smb price now om)))
            = Suc (length (open_positions om)))
   \<and> open_trade_count (risk_manager (order_manager (live_run ks (LiveTradingEngine_init symbol' c))))
       = int (length (open_positions (order_manager (live_run ks (LiveTradingEngine_init symbol' c)))))
   \<and> int (length (open_positions (order_manager (live_run ks (LiveTradingEngine_init symbol' c)))))
       \<le> MAX_OPEN_TRADES"
proof -
  have live: "live_inv (order_manager (live_run ks (LiveTradingEngine_init symbol' c)))"
    by (rule live_run_inv) (rule live_inv_init)
  have "lt_can_trade lt \<longrightarrow> int (length (lt_positions lt)) < MAX_OPEN_TRADES"
    by (simp add: lt_can_trade_def split: if_splits)
  then show ?thesis
    using can_open_trade_room [of s] try_open_position_length [of row s]
      run_bound [of p df] can_trade_room [of now rm] open_position_adds_one [of smb price now om]
      live
    by (simp add: live_inv_def)
qed


theorem open_positions_bounded_witness:
  "can_open_trade (reset default_params)
   \<and> int (length (positions (reset default_params))) < max_open_trades (params (reset default_params))
   \<and> 0 \<le> max_open_trades default_params
   \<and> int (length (positions (run default_params
         [\<lparr> timestamp = 0, open_price = 100, high = 100, low = 100, close = 100,
            signal = Some 1 \<rparr>]))) \<le> max_open_trades default_params
   \<and> fst (can_trade 0 (RiskManager_init None None None None None))
   \<and> open_trade_count (RiskManager_init None None None None None)
       < rm_max_open_trades (RiskManager_init None None None None None)
   \<and> lt_can_trade (LiveTrader_fields ''k'' ''s'' ''btcusdt'' None None None None)
   \<and> int (length (lt_positions (LiveTrader_fields ''k'' ''s'' ''btcusdt'' None None None None)))
       < MAX_OPEN_TRADES"
proof -
  have h1: "can_open_trade (reset default_params)"
    by (simp add: can_open_trade_def reset_def default_params_def)
  have h2: "0 \<le> max_open_trades default_params"
    by (simp add: default_params_def)
  have h3: "fst (can_trade 0 (RiskManager_init None None None None None))"
    by (simp add: can_trade_def rm_update_daily_tracking_def RiskManager_init_def py_or_def
          Let_def date_of_def MAX_OPEN_TRADES_def MAX_DAILY_LOSS_def INITIAL_CAPITAL_def)
  have h4: "lt_can_trade (LiveTrader_fields ''k'' ''s'' ''btcusdt'' None None None None)"
    by (simp add: lt_can_trade_def LiveTrader_fields_def MAX_OPEN_TRADES_def)
  show ?thesis
    using h1 h2 h3 h4
      open_positions_bounded [where s = "reset default_params" and p = default_params
        and df = "[\<lparr> timestamp = 0, open_price = 100, high = 100, low = 100, close = 100,
            signal = Some 1 \<rparr>]" and now = 0
        and rm = "RiskManager_init None None None None None"
        and lt = "LiveTrader_fields ''k'' ''s'' ''btcusdt'' None None None None"]
    by blast
qed


section \<open>The circuit breaker latch\<close>

lemma breaker_after_check:
  "circuit_breaker_active (check_circuit_breaker s) \<longleftrightarrow>
     circuit_breaker_active s
     \<or> (0 < peak_equity s
        \<and> (peak_equity s - equity s) / peak_equity s \<ge> circuit_breaker_dd (params s))"
  by (simp add: check_circuit_breaker_def Let_def)

lemma breaker_after_step:
  "circuit_breaker_active (step row s) \<longleftrightarrow>
     circuit_breaker_active s
     \<or> (0 < peak_equity s
        \<and> (peak_equity s - equity s) / peak_equity s \<ge> circuit_breaker_dd (params s))"
  by (simp add: step_def Let_def breaker_after_check)

lemma breaker_latch_run_loop:
  "circuit_breaker_active s \<Longrightarrow> circuit_breaker_active (run_loop df s)"
  by (induction df arbitrary: s) (simp_all add: run_loop_Nil run_loop_Cons breaker_after_step)

lemma close_all_positions_fields [simp]:
  "params (close_all_positions row s) = params s"
  "peak_equity (close_all_positions row s) = peak_equity s"
  "circuit_breaker_active (close_all_positions row s) = circuit_breaker_active s"
  "equity_curve (close_all_positions row s) = equity_curve s"
proof -
  have "params (fold (book_forced_close row) ps s) = params s
        \<and> peak_equity (fold (book_forced_close row) ps s) = peak_equity s
        \<and> circuit_breaker_active (fold (book_forced_close row) ps s) = circuit_breaker_active s
        \<and> equity_curve (fold (book_forced_close row) ps s) = equity_curve s" for ps
    by (induction ps arbitrary: s) (simp_all add: book_forced_close_def Let_def)
  then show
    "params (close_all_positions row s) = params s"
    "peak_equity (close_all_positions row s) = peak_equity s"
    "circuit_breaker_active (close_all_positions row s) = circuit_breaker_active s"
    "equity_curve (close_all_positions row s) = equity_curve s"
    by (simp_all add: close_all_positions_def Let_def)
qed

lemma breaker_blocks: "circuit_breaker_active s \<Longrightarrow> \<not> can_open_trade s"
  by (simp add: can_open_trade_def)

lemma try_open_position_blocked: "\<not> can_open_trade s \<Longrightarrow> try_open_position row s = s"
  by (simp add: try_open_position_def)

lemma positions_step_blocked:
  assumes "circuit_breaker_active s"
  shows "positions (step row s) = filter (stays row) (positions s)"
proof -
  let ?s3 = "check_circuit_breaker (check_exits row (update_daily_tracking (timestamp row) s))"
  have "circuit_breaker_active ?s3"
    using assms by (simp add: breaker_after_check)
  then have "try_open_position row ?s3 = ?s3"
    by (simp add: breaker_blocks try_open_position_blocked)
  then show ?thesis
    by (simp add: positions_step positions_check_exits)
qed

lemma no_open_after_breaker:
  "circuit_breaker_active s \<Longrightarrow> subseq (positions (run_loop df s)) (positions s)"
proof (induction df arbitrary: s)
  case Nil
  then show ?case by (simp add: run_loop_Nil)
next
  case (Cons row df)
  have a: "circuit_breaker_active (step row s)"
    using Cons.prems by (simp add: breaker_after_step)
  have "subseq (positions (run_loop df (step row s))) (positions (step row s))"
    by (rule Cons.IH [OF a])
  moreover have "subseq (positions (step row s)) (positions s)"
    using Cons.prems by (simp add: positions_step_blocked)
  ultimately have "subseq (positions (run_loop df (step row s))) (positions s)"
    by (rule subseq_order.trans)
  then show ?case by (simp add: run_loop_Cons)
qed

lemma peak_equity_step: "peak_equity s \<le> peak_equity (step row s)"
  by (simp add: step_def Let_def update_equity_def)

lemma peak_equity_run_loop: "peak_equity s \<le> peak_equity (run_loop df s)"
proof (induction df arbitrary: s)
  case Nil
  then show ?case by (simp add: run_loop_Nil)
next
  case (Cons row df)
  have "peak_equity s \<le> peak_equity (step row s)" by (rule peak_equity_step)
  also have "\<dots> \<le> peak_equity (run_loop df (step row s))" by (rule Cons.IH)
  finally show ?case by (simp add: run_loop_Cons)
qed

lemma peak_equity_positive:
  "0 < initial_capital p \<Longrightarrow> 0 < peak_equity (run_loop df (reset p))"
  using peak_equity_run_loop [of "reset p" df] by (simp add: reset_def)

text \<open>
  C2.  The circuit breaker is a one-way latch.  The check sets the flag when the
  drawdown from the peak reaches the threshold (the peak is positive in every run that
  starts from a positive capital); the check, a candle, a run of candles and the forced
  close all leave a set flag set; and once it is set every admission check fails, an
  open attempt changes nothing, and the open positions after any further candles are
  a subsequence of the positions held when it tripped.
\<close>

theorem circuit_breaker_latch:
  "(0 < peak_equity s
      \<and> (peak_equity s - equity s) / peak_equity s \<ge> circuit_breaker_dd (params s)
    \<longrightarrow> circuit_breaker_active (check_circuit_breaker s))
   \<and> (0 < initial_capital p
      \<and> (peak_equity (run_loop df (reset p)) - equity (run_loop df (reset p)))
            / peak_equity (run_loop df (reset p)) \<ge> circuit_breaker_dd p
    \<longrightarrow> circuit_breaker_active (check_circuit_breaker (run_loop df (reset p))))
   \<and> (circuit_breaker_active s
    \<longrightarrow> circuit_breaker_active (check_circuit_breaker s)
        \<and> circuit_breaker_active (step row s)
        \<and> circuit_breaker_active (run_loop df s)
        \<and> circuit_breaker_active (close_all_positions row (run_loop df s))
        \<and> \<not> can_open_trade (run_loop df s)
        \<and> try_open_position row (run_loop df s) = run_loop df s
        \<and> subseq (positions (run_loop df s)) (positions s))"
proof -
  have "circuit_breaker_active (check_circuit_breaker (run_loop df (reset p)))"
    if "0 < initial_capital p"
      and "(peak_equity (run_loop df (reset p)) - equity (run_loop df (reset p)))
            / peak_equity (run_loop df (reset p)) \<ge> circuit_breaker_dd p"
    using that peak_equity_positive [of p df] by (simp add: breaker_after_check)
  moreover have "circuit_breaker_active (run_loop df s)
      \<and> \<not> can_open_trade (run_loop df s)
      \<and> try_open_position row (run_loop df s) = run_loop df s" if "circuit_breaker_active s"
    using breaker_latch_run_loop [OF that, of df]
    by (simp add: breaker_blocks try_open_position_blocked)
  ultimately show ?thesis
    using no_open_after_breaker [of s df]
    by (simp add: breaker_after_check breaker_after_step)
qed

theorem circuit_breaker_latch_witness:
  "0 < peak_equity ((reset default_params)\<lparr> equity := 8900 \<rparr>)
   \<and> (peak_equity ((reset default_params)\<lparr> equity := 8900 \<rparr>)
        - equity ((reset default_params)\<lparr> equity := 8900 \<rparr>))
       / peak_equity ((reset default_params)\<lparr> equity := 8900 \<rparr>)
     \<ge> circuit_breaker_dd (params ((reset default_params)\<lparr> equity := 8900 \<rparr>))
   \<and> circuit_breaker_active (check_circuit_breaker ((reset default_params)\<lparr> equity := 8900 \<rparr>))
   \<and> 0 < initial_capital (default_params\<lparr> circuit_breaker_dd := 0 \<rparr>)
   \<and> circuit_breaker_active
        (check_circuit_breaker (run_loop [] (reset (default_params\<lparr> circuit_breaker_dd := 0 \<rparr>))))
   \<and> circuit_breaker_active ((reset default_params)\<lparr> circuit_breaker_active := True \<rparr>)
   \<and> \<not> can_open_trade (run_loop [] ((reset default_params)\<lparr> circuit_breaker_active := True \<rparr>))"
proof -
  have h1: "0 < peak_equity ((reset default_params)\<lparr> equity := 8900 \<rparr>)
   \<and> (peak_equity ((reset default_params)\<lparr> equity := 8900 \<rparr>)
        - equity ((reset default_params)\<lparr> equity := 8900 \<rparr>))
       / peak_equity ((reset default_params)\<lparr> equity := 8900 \<rparr>)
     \<ge> circuit_breaker_dd (params ((reset default_params)\<lparr> equity := 8900 \<rparr>))"
    by (simp add: reset_def default_params_def)
  have h2: "0 < initial_capital (default_params\<lparr> circuit_breaker_dd := 0 \<rparr>)
    \<and> (peak_equity (run_loop [] (reset (default_params\<lparr> circuit_breaker_dd := 0 \<rparr>)))
         - equity (run_loop [] (reset (default_params\<lparr> circuit_breaker_dd := 0 \<rparr>))))
            / peak_equity (run_loop [] (reset (default_params\<lparr> circuit_breaker_dd := 0 \<rparr>)))
        \<ge> circuit_breaker_dd (default_params\<lparr> circuit_breaker_dd := 0 \<rparr>)"
    by (simp add: run_loop_def reset_def default_params_def)
  have h3: "circuit_breaker_active ((reset default_params)\<lparr> circuit_breaker_active := True \<rparr>)"
    by simp
  show ?thesis
    using h1
      circuit_breaker_latch [where s = "(reset default_params)\<lparr> equity := 8900 \<rparr>"]
      h2
      circuit_breaker_latch [where p = "default_params\<lparr> circuit_breaker_dd := 0 \<rparr>"
        and df = "[]"]
      h3
      circuit_breaker_latch [where s = "(reset default_params)\<lparr> circuit_breaker_active := True \<rparr>"
        and df = "[]"]
    by blast
qed


section \<open>Exit reasons\<close>

lemma check_exits_loop_sides:
  "map side (trades (fst (check_exits_loop row idx ps (s, ci)))) =
     map side (trades s)
     @ map (\<lambda>pos. if low row \<le> sl_price pos then SL else TP)
         (filter (\<lambda>pos. low row \<le> sl_price pos \<or> high row \<ge> tp_price pos) ps)"
  by (induction ps arbitrary: idx s ci)
     (auto simp: exit_decision_def book_exit_def Let_def)

lemma check_exits_sides:
  "map side (drop (length (trades s)) (trades (check_exits row s))) =
     map (\<lambda>pos. if low row \<le> sl_price pos then SL else TP)
       (filter (\<lambda>pos. low row \<le> sl_price pos \<or> high row \<ge> tp_price pos) (positions s))"
proof -
  obtain s' ci where L: "check_exits_loop row 0 (positions s) (s, []) = (s', ci)"
    by (cases "check_exits_loop row 0 (positions s) (s, [])")
  have "trades (check_exits row s) = trades s'"
    using L by (simp add: check_exits_def)
  moreover have "map side (trades s') =
     map side (trades s)
     @ map (\<lambda>pos. if low row \<le> sl_price pos then SL else TP)
         (filter (\<lambda>pos. low row \<le> sl_price pos \<or> high row \<ge> tp_price pos) (positions s))"
    using check_exits_loop_sides [of row 0 "positions s" s "[]"] L by simp
  ultimately show ?thesis
    by (simp add: drop_map [symmetric] del: drop_map)
qed

text \<open>
  C3, as the code has it.  In the simulator a position whose stop-loss condition holds
  on the candle leaves with reason SL, whatever the candle's high: the reasons of the
  trades booked by the exit pass are SL for every position with low at or below its
  stop, and TP only for the others.  The live exit checks do not read the candle's low
  and high.  They compare one price, the kline's close or the last ticker price, with
  the take-profit level first and the stop-loss level second: the reason is TP whenever
  the price is at or above the take-profit level, and SL only when it is below that
  level and at or below the stop.
\<close>

theorem exit_reason_priority:
  "(low row \<le> sl_price pos \<longrightarrow> exit_decision row pos = Some (sl_price pos, SL))
   \<and> map side (drop (length (trades s)) (trades (check_exits row s))) =
       map (\<lambda>pos. if low row \<le> sl_price pos then SL else TP)
         (filter (\<lambda>pos. low row \<le> sl_price pos \<or> high row \<ge> tp_price pos) (positions s))
   \<and> close_reason price lp =
       (if price \<ge> lp_tp_price lp then Some TP
        else if price \<le> lp_sl_price lp then Some SL else None)
   \<and> (num_field d ''tp_price'' = Inr tp \<and> num_field d ''sl_price'' = Inr sl \<longrightarrow>
        lt_exit_reason price d =
          Inr (if price \<ge> tp then Some TP else if price \<le> sl then Some SL else None))"
  using check_exits_sides [of s row]
  by (simp add: exit_decision_def close_reason_def lt_exit_reason_def)

theorem exit_reason_priority_witness:
  "low \<lparr> timestamp = 0, open_price = 100, high = 102, low = 98, close = 100, signal = None \<rparr>
     \<le> sl_price \<lparr> entry_time = 0, entry_price = 100, quantity = 1, tp_price = 101,
                  sl_price = 99, entry_fee = 0 \<rparr>
   \<and> exit_decision
        \<lparr> timestamp = 0, open_price = 100, high = 102, low = 98, close = 100, signal = None \<rparr>
        \<lparr> entry_time = 0, entry_price = 100, quantity = 1, tp_price = 101,
          sl_price = 99, entry_fee = 0 \<rparr> = Some (99, SL)
   \<and> num_field [(''tp_price'', JNum 101), (''sl_price'', JNum 99)] ''tp_price'' = Inr 101
   \<and> num_field [(''tp_price'', JNum 101), (''sl_price'', JNum 99)] ''sl_price'' = Inr 99
   \<and> lt_exit_reason 98 [(''tp_price'', JNum 101), (''sl_price'', JNum 99)] = Inr (Some SL)"
proof -
  have h1: "low \<lparr> timestamp = 0, open_price = 100, high = 102, low = 98, close = 100,
               signal = None \<rparr>
     \<le> sl_price \<lparr> entry_time = 0, entry_price = 100, quantity = 1, tp_price = 101,
                  sl_price = 99, entry_fee = 0 \<rparr>"
    by simp
  have h2: "num_field [(''tp_price'', JNum 101), (''sl_price'', JNum 99)] ''tp_price'' = Inr 101
     \<and> num_field [(''tp_price'', JNum 101), (''sl_price'', JNum 99)] ''sl_price'' = Inr 99"
    by (simp add: num_field_def)
  show ?thesis
    using h1 h2
      exit_reason_priority [where row = "\<lparr> timestamp = 0, open_price = 100, high = 102,
          low = 98, close = 100, signal = None \<rparr>"
        and pos = "\<lparr> entry_time = 0, entry_price = 100, quantity = 1, tp_price = 101,
          sl_price = 99, entry_fee = 0 \<rparr>"
        and d = "[(''tp_price'', JNum 101), (''sl_price'', JNum 99)]"
        and tp = 101 and sl = 99 and price = 98]
    by simp
qed

text \<open>
  The claim fails on the live path: on a kline whose low is below the stop and whose
  high is above the target, with the close above the target, the order manager's check
  and the live trader's check both answer TP, where the simulator answers SL.
\<close>

theorem live_exit_reason_counterexample:
  "k_low \<lparr> k_open = 100, k_high = 102, k_low = 98, k_close = 102, is_closed = True,
           k_signal = None, k_now = 0 \<rparr>
     \<le> lp_sl_price \<lparr> position_id = 1, lp_symbol = ''BTCUSDT'', lp_entry_price = 100,
           lp_quantity = 1, lp_tp_price = 101, lp_sl_price = 99, lp_entry_time = 0,
           entry_order_id = [], status = OPEN \<rparr>
   \<and> k_high \<lparr> k_open = 100, k_high = 102, k_low = 98, k_close = 102, is_closed = True,
           k_signal = None, k_now = 0 \<rparr>
     \<ge> lp_tp_price \<lparr> position_id = 1, lp_symbol = ''BTCUSDT'', lp_entry_price = 100,
           lp_quantity = 1, lp_tp_price = 101, lp_sl_price = 99, lp_entry_time = 0,
           entry_order_id = [], status = OPEN \<rparr>
   \<and> close_reason
        (k_close \<lparr> k_open = 100, k_high = 102, k_low = 98, k_close = 102, is_closed = True,
           k_signal = None, k_now = 0 \<rparr>)
        \<lparr> position_id = 1, lp_symbol = ''BTCUSDT'', lp_entry_price = 100,
           lp_quantity = 1, lp_tp_price = 101, lp_sl_price = 99, lp_entry_time = 0,
           entry_order_id = [], status = OPEN \<rparr> = Some TP
   \<and> lt_exit_reason 102
        [(''id'', JStr ''POS_0001''), (''symbol'', JStr ''BTCUSDT''),
         (''entry_price'', JNum 100), (''quantity'', JNum 1), (''tp_price'', JNum 101),
         (''sl_price'', JNum 99), (''entry_time'', JStr ''2024-01-01T00:00:00+00:00''),
         (''order_id'', JStr ''1'')] = Inr (Some TP)
   \<and> exit_decision
        \<lparr> timestamp = 0, open_price = 100, high = 102, low = 98, close = 102, signal = None \<rparr>
        \<lparr> entry_time = 0, entry_price = 100, quantity = 1, tp_price = 101,
          sl_price = 99, entry_fee = 0 \<rparr> = Some (99, SL)"
  by (simp add: close_reason_def lt_exit_reason_def num_field_def exit_decision_def)


section \<open>Position sizing\<close>

lemma try_open_position_rejects:
  "entry_price_of (params s) row - sl_price_of (params s) (entry_price_of (params s) row) \<le> 0
   \<Longrightarrow> try_open_position row s = s"
  by (simp add: try_open_position_def Let_def)

lemma try_open_position_unclamped:
  assumes "can_open_trade s"
    and "entry_price_of (params s) row - sl_price_of (params s) (entry_price_of (params s) row) > 0"
    and "entry_price_of (params s) row
           * (risk_amount s / (entry_price_of (params s) row
                - sl_price_of (params s) (entry_price_of (params s) row)))
           * (1 + trading_fee (params s)) \<le> cash s"
  shows "positions (try_open_position row s) =
     positions s @
       [\<lparr> entry_time = timestamp row, entry_price = entry_price_of (params s) row,
          quantity = risk_amount s / (entry_price_of (params s) row
                - sl_price_of (params s) (entry_price_of (params s) row)),
          tp_price = tp_price_of (params s) (entry_price_of (params s) row),
          sl_price = sl_price_of (params s) (entry_price_of (params s) row),
          entry_fee = entry_price_of (params s) row
           * (risk_amount s / (entry_price_of (params s) row
                - sl_price_of (params s) (entry_price_of (params s) row)))
           * trading_fee (params s) \<rparr>]"
proof -
  let ?e = "entry_price_of (params s) row"
  let ?q = "risk_amount s / (?e - sl_price_of (params s) ?e)"
  have "a + a * f = a * (1 + f)" for a f :: real
    by (simp add: ring_distribs)
  then have "?e * ?q + ?e * ?q * trading_fee (params s) = ?e * ?q * (1 + trading_fee (params s))"
    by blast
  then have "\<not> ?e * ?q + ?e * ?q * trading_fee (params s) > cash s"
    using assms(3) by simp
  then show ?thesis
    using assms(1,2) by (simp add: try_open_position_def Let_def)
qed

lemma try_open_position_clamped:
  assumes "can_open_trade s"
    and "entry_price_of (params s) row - sl_price_of (params s) (entry_price_of (params s) row) > 0"
    and "entry_price_of (params s) row
           * (risk_amount s / (entry_price_of (params s) row
                - sl_price_of (params s) (entry_price_of (params s) row)))
           * (1 + trading_fee (params s)) > cash s"
    and "cash s / (entry_price_of (params s) row * (1 + trading_fee (params s))) > 0"
  shows "positions (try_open_position row s) =
     positions s @
       [\<lparr> entry_time = timestamp row, entry_price = entry_price_of (params s) row,
          quantity = cash s / (entry_price_of (params s) row * (1 + trading_fee (params s))),
          tp_price = tp_price_of (params s) (entry_price_of (params s) row),
          sl_price = sl_price_of (params s) (entry_price_of (params s) row),
          entry_fee = entry_price_of (params s) row
           * (cash s / (entry_price_of (params s) row * (1 + trading_fee (params s))))
           * trading_fee (params s) \<rparr>]"
proof -
  let ?e = "entry_price_of (params s) row"
  let ?q = "risk_amount s / (?e - sl_price_of (params s) ?e)"
  have "a + a * f = a * (1 + f)" for a f :: real
    by (simp add: ring_distribs)
  then have "?e * ?q + ?e * ?q * trading_fee (params s) = ?e * ?q * (1 + trading_fee (params s))"
    by blast
  then have "?e * ?q + ?e * ?q * trading_fee (params s) > cash s"
    using assms(3) by simp
  then show ?thesis
    using assms(1,2,4) by (simp add: try_open_position_def Let_def)
qed

lemma calculate_position_size_eq:
  "calculate_position_size rm entry sl =
     (if entry = sl then Inr 0
      else if current_equity rm * rm_risk_per_trade rm / \<bar>entry - sl\<bar> * entry
                > current_equity rm * (95 / 100)
           then (if entry = 0 then Inl ZeroDivisionError
                 else Inr (current_equity rm * (95 / 100) / entry))
           else Inr (current_equity rm * rm_risk_per_trade rm / \<bar>entry - sl\<bar>))"
  by (simp add: calculate_position_size_def Let_def)


text \<open>
  C4, as the code has it.  The simulator opens nothing when the stop distance
  entry - sl is not positive; otherwise the quantity before the cash clamp is
  equity * risk_per_trade / (entry - sl), and it is the quantity of the opened position
  when the cost with the fee fits the cash (else the position holds cash / (entry * (1 + fee))).
  The live risk manager takes the absolute stop distance: it returns 0 only when
  entry = sl, and otherwise equity * risk_per_trade / |entry - sl|, capped inside the
  function so that the cost stays within 95 percent of the equity (the cap divides by
  the entry price and raises when that is zero).
\<close>

theorem position_sizing:
  "(let entry = entry_price_of (params s) row;
        sl = sl_price_of (params s) entry;
        qty = equity s * risk_per_trade (params s) / (entry - sl);
        fee = trading_fee (params s)
    in (entry - sl \<le> 0 \<longrightarrow> try_open_position row s = s)
       \<and> (can_open_trade s \<and> 0 < entry - sl \<and> entry * qty * (1 + fee) \<le> cash s \<longrightarrow>
            length (positions (try_open_position row s)) = Suc (length (positions s))
            \<and> quantity (last (positions (try_open_position row s))) = qty)
       \<and> (can_open_trade s \<and> 0 < entry - sl \<and> entry * qty * (1 + fee) > cash s
              \<and> cash s / (entry * (1 + fee)) > 0 \<longrightarrow>
            length (positions (try_open_position row s)) = Suc (length (positions s))
            \<and> quantity (last (positions (try_open_position row s)))
                = cash s / (entry * (1 + fee))))
   \<and> calculate_position_size rm e l =
       (if e = l then Inr 0
        else if current_equity rm * rm_risk_per_trade rm / \<bar>e - l\<bar> * e
                  > current_equity rm * (95 / 100)
             then (if e = 0 then Inl ZeroDivisionError
                   else Inr (current_equity rm * (95 / 100) / e))
             else Inr (current_equity rm * rm_risk_per_trade rm / \<bar>e - l\<bar>))"
  using try_open_position_rejects [of s row] try_open_position_unclamped [of s row]
    try_open_position_clamped [of s row] calculate_position_size_eq [of rm e l]
  by (simp add: Let_def risk_amount_def)


theorem position_sizing_witness:
  "can_open_trade (reset scenario_a_params)
   \<and> entry_price_of scenario_a_params flat_candle = 100
   \<and> sl_price_of scenario_a_params (entry_price_of scenario_a_params flat_candle) = 99
   \<and> equity (reset scenario_a_params) = 10000
   \<and> risk_per_trade scenario_a_params = 1 / 100
   \<and> quantity (last (positions (try_open_position flat_candle (reset scenario_a_params)))) = 100
   \<and> entry_price_of no_stop_params flat_candle
       - sl_price_of no_stop_params (entry_price_of no_stop_params flat_candle) \<le> 0
   \<and> try_open_position flat_candle (reset no_stop_params) = reset no_stop_params
   \<and> can_open_trade (reset scenario_a_fee_params)
   \<and> quantity (last (positions (try_open_position flat_candle (reset scenario_a_fee_params))))
       = 100000 / 1001
   \<and> calculate_position_size (RiskManager_init None None None None None) 100 100 = Inr 0"
  using
    position_sizing [where s = "reset scenario_a_params" and row = flat_candle]
    position_sizing [where s = "reset no_stop_params" and row = flat_candle]
    position_sizing [where s = "reset scenario_a_fee_params" and row = flat_candle
      and rm = "RiskManager_init None None None None None" and e = 100 and l = 100]
  by (simp add: Let_def can_open_trade_def reset_def default_params_def entry_price_of_def
        sl_price_of_def scenario_a_params_def scenario_a_fee_params_def no_stop_params_def
        flat_candle_def)

text \<open>
  The claim fails on the live sizing: with the stop above the entry the stop distance
  entry - sl is negative and the risk manager still returns a positive quantity; and in
  the claim's own scenario (equity 10000, risk 1 percent, entry 100, stop 99) it
  returns the capped 95, not 100.
\<close>

theorem live_position_size_counterexample:
  "(99 :: real) - 100 \<le> 0
   \<and> current_equity (RiskManager_init None None None None None) = 10000
   \<and> rm_risk_per_trade (RiskManager_init None None None None None) = 1 / 100
   \<and> calculate_position_size (RiskManager_init None None None None None) 99 100 = Inr (9500 / 99)
   \<and> calculate_position_size (RiskManager_init None None None None None) 100 99 = Inr 95"
  by (simp add: calculate_position_size_def RiskManager_init_def py_or_def Let_def
        INITIAL_CAPITAL_def RISK_PER_TRADE_def)


section \<open>The admission check\<close>















section \<open>The peak is a running maximum\<close>


lemma step_running_max: "peak_equity (step row s) = max (peak_equity s) (equity (step row s))"
  by (simp add: step_def Let_def update_equity_def)



lemma run_loop_snoc: "run_loop (df @ [row]) s = step row (run_loop df s)"
  by (simp add: run_loop_def)












section \<open>When the breaker trips\<close>

text \<open>The drawdown run, candle by candle, each step of a candle on its own.\<close>

lemmas scenario_b_data =
  scenario_b_params_def scenario_b_candle_1_def scenario_b_candle_2_def
  scenario_b_candle_3_def scenario_b_position_def scenario_b_after_1_def
  scenario_b_after_2_def scenario_b_after_3_def flat_candle_def

lemma scenario_b_step_1:
  "step scenario_b_candle_1 (reset scenario_b_params) = scenario_b_after_1"
proof -
  let ?rolled = "(reset scenario_b_params)\<lparr> current_date := Some 0 \<rparr>"
  let ?bought = "scenario_b_after_1\<lparr> equity_curve := [] \<rparr>"
  have a: "update_daily_tracking (timestamp scenario_b_candle_1) (reset scenario_b_params)
             = ?rolled"
    by (simp add: update_daily_tracking_def date_of_def Let_def reset_def scenario_b_data)
  have b: "check_exits scenario_b_candle_1 ?rolled = ?rolled"
    by (simp add: check_exits_def reset_def)
  have c: "check_circuit_breaker ?rolled = ?rolled"
    by (simp add: check_circuit_breaker_def Let_def reset_def scenario_b_data)
  have d: "try_open_position scenario_b_candle_1 ?rolled = ?bought"
    by (simp add: try_open_position_def can_open_trade_def entry_price_of_def
          tp_price_of_def sl_price_of_def risk_amount_def Let_def reset_def scenario_b_data)
  have e: "update_equity scenario_b_candle_1 ?bought = ?bought"
    by (simp add: update_equity_def Let_def scenario_b_data)
  have sig: "signal scenario_b_candle_1 = Some 1"
    by (simp add: scenario_b_data)
  have curve: "equity_curve (reset scenario_b_params) = []"
    by (simp add: reset_def)
  have "step scenario_b_candle_1 (reset scenario_b_params)
          = ?bought\<lparr> equity_curve := equity_curve ?bought
                @ [(timestamp scenario_b_candle_1, equity ?bought)] \<rparr>"
    by (simp add: step_def Let_def a b c d e sig curve)
  also have "\<dots> = scenario_b_after_1"
    by (simp add: scenario_b_data reset_def)
  finally show ?thesis .
qed

lemma scenario_b_step_2:
  "step scenario_b_candle_2 scenario_b_after_1 = scenario_b_after_2"
proof -
  let ?marked = "scenario_b_after_1\<lparr> equity := 8900 \<rparr>"
  have a: "update_daily_tracking (timestamp scenario_b_candle_2) scenario_b_after_1
             = scenario_b_after_1"
    by (simp add: update_daily_tracking_def date_of_def Let_def scenario_b_data)
  have b: "check_exits scenario_b_candle_2 scenario_b_after_1 = scenario_b_after_1"
    by (simp add: check_exits_def exit_decision_def scenario_b_data)
  have c: "check_circuit_breaker scenario_b_after_1 = scenario_b_after_1"
    by (simp add: check_circuit_breaker_def Let_def scenario_b_data)
  have e: "update_equity scenario_b_candle_2 scenario_b_after_1 = ?marked"
    by (simp add: update_equity_def Let_def scenario_b_data)
  have sig: "signal scenario_b_candle_2 = Some 0"
    by (simp add: scenario_b_data)
  have "step scenario_b_candle_2 scenario_b_after_1
          = ?marked\<lparr> equity_curve := equity_curve ?marked
                @ [(timestamp scenario_b_candle_2, equity ?marked)] \<rparr>"
    by (simp add: step_def Let_def a b c e sig)
  also have "\<dots> = scenario_b_after_2"
    by (simp add: scenario_b_data)
  finally show ?thesis .
qed

lemma scenario_b_step_3:
  "step scenario_b_candle_3 scenario_b_after_2 = scenario_b_after_3"
proof -
  let ?tripped = "scenario_b_after_2\<lparr> circuit_breaker_active := True \<rparr>"
  have a: "update_daily_tracking (timestamp scenario_b_candle_3) scenario_b_after_2
             = scenario_b_after_2"
    by (simp add: update_daily_tracking_def date_of_def Let_def scenario_b_data)
  have b: "check_exits scenario_b_candle_3 scenario_b_after_2 = scenario_b_after_2"
    by (simp add: check_exits_def exit_decision_def scenario_b_data)
  have c: "check_circuit_breaker scenario_b_after_2 = ?tripped"
    by (simp add: check_circuit_breaker_def Let_def scenario_b_data)
  have e: "update_equity scenario_b_candle_3 ?tripped = ?tripped"
    by (simp add: update_equity_def Let_def scenario_b_data)
  have sig: "signal scenario_b_candle_3 = Some 0"
    by (simp add: scenario_b_data)
  have "step scenario_b_candle_3 scenario_b_after_2
          = ?tripped\<lparr> equity_curve := equity_curve ?tripped
                @ [(timestamp scenario_b_candle_3, equity ?tripped)] \<rparr>"
    by (simp add: step_def Let_def a b c e sig)
  also have "\<dots> = scenario_b_after_3"
    by (simp add: scenario_b_data)
  finally show ?thesis .
qed

lemma scenario_b_run_1:
  "run_loop [scenario_b_candle_1] (reset scenario_b_params) = scenario_b_after_1"
  by (simp add: run_loop_def scenario_b_step_1)

lemma scenario_b_run_2:
  "run_loop [scenario_b_candle_1, scenario_b_candle_2] (reset scenario_b_params)
     = scenario_b_after_2"
  by (simp add: run_loop_def scenario_b_step_1 scenario_b_step_2)

lemma scenario_b_run_3:
  "run_loop [scenario_b_candle_1, scenario_b_candle_2, scenario_b_candle_3]
     (reset scenario_b_params) = scenario_b_after_3"
  by (simp add: run_loop_def scenario_b_step_1 scenario_b_step_2 scenario_b_step_3)

lemma scenario_b_ledger:
  "equity scenario_b_after_1 = 10000" "peak_equity scenario_b_after_1 = 10000"
  "\<not> circuit_breaker_active scenario_b_after_1"
  "circuit_breaker_dd (params scenario_b_after_1) = 1 / 10"
  "equity scenario_b_after_2 = 8900" "peak_equity scenario_b_after_2 = 10000"
  "\<not> circuit_breaker_active scenario_b_after_2"
  "circuit_breaker_active scenario_b_after_3"
  by (simp_all add: scenario_b_data)

lemma breaker_after_run:
  "circuit_breaker_active (run p df) \<longleftrightarrow> circuit_breaker_active (run_loop df (reset p))"
  by (simp add: run_def Let_def)

lemma params_reset: "params (reset p) = p"
  by (simp add: reset_def)

lemma run_loop_snoc2: "run_loop (df @ [row, row']) s = step row' (step row (run_loop df s))"
  by (simp add: run_loop_def)

text \<open>
  C7, as the code has it.  Within a candle the breaker is evaluated before the
  mark-to-market, so it sees the equity and the peak the previous candle left: the flag
  after a candle is set exactly when it was set before or the drawdown before the
  candle had reached the threshold.  With threshold 10 percent and peak 10000, the
  candle whose mark-to-market first takes the equity from above 9000 to 9000 or below
  leaves the flag clear, and the flag is set by the next candle that is processed.  The
  forced close at the end of a run leaves the flag as the last candle left it.  So in a
  run whose last candle is the one that takes the equity to 9000 or below the flag is
  clear at the end, and in a run with one more candle it is set.
\<close>

theorem breaker_trips_on_next_candle:
  "(circuit_breaker_active (step row s) \<longleftrightarrow>
      circuit_breaker_active s
      \<or> (0 < peak_equity s
         \<and> (peak_equity s - equity s) / peak_equity s \<ge> circuit_breaker_dd (params s)))
   \<and> (circuit_breaker_dd (params s) = 1 / 10 \<and> \<not> circuit_breaker_active s
        \<and> peak_equity s = 10000 \<and> 9000 < equity s \<and> equity (step row s) \<le> 9000
      \<longrightarrow> \<not> circuit_breaker_active (step row s)
          \<and> circuit_breaker_active (step row' (step row s)))
   \<and> (circuit_breaker_active (run p df) \<longleftrightarrow> circuit_breaker_active (run_loop df (reset p)))
   \<and> (circuit_breaker_dd p = 1 / 10 \<and> \<not> circuit_breaker_active (run_loop df (reset p))
        \<and> peak_equity (run_loop df (reset p)) = 10000
        \<and> 9000 < equity (run_loop df (reset p))
        \<and> equity (run_loop (df @ [row]) (reset p)) \<le> 9000
      \<longrightarrow> \<not> circuit_breaker_active (run_loop (df @ [row]) (reset p))
          \<and> circuit_breaker_active (run_loop (df @ [row, row']) (reset p))
          \<and> \<not> circuit_breaker_active (run p (df @ [row]))
          \<and> circuit_breaker_active (run p (df @ [row, row'])))"
proof -
  have next_candle: "\<not> circuit_breaker_active (step row s)
          \<and> circuit_breaker_active (step row' (step row s))"
    if h: "circuit_breaker_dd (params s) = 1 / 10" "\<not> circuit_breaker_active s"
      "peak_equity s = 10000" "9000 < equity s" "equity (step row s) \<le> 9000" for s
  proof -
    have "\<not> circuit_breaker_active (step row s)"
      using h(1-4) by (simp add: breaker_after_step)
    moreover have "peak_equity (step row s) = 10000"
      using h(3,5) by (simp add: step_running_max)
    then have "circuit_breaker_active (step row' (step row s))"
      using h(1,5) by (simp add: breaker_after_step)
    ultimately show ?thesis by simp
  qed
  let ?s = "run_loop df (reset p)"
  have ps: "params ?s = p" by (simp add: params_reset)
  have in_run: "\<not> circuit_breaker_active (run_loop (df @ [row]) (reset p))
          \<and> circuit_breaker_active (run_loop (df @ [row, row']) (reset p))
          \<and> \<not> circuit_breaker_active (run p (df @ [row]))
          \<and> circuit_breaker_active (run p (df @ [row, row']))"
    if h: "circuit_breaker_dd p = 1 / 10 \<and> \<not> circuit_breaker_active ?s
        \<and> peak_equity ?s = 10000 \<and> 9000 < equity ?s
        \<and> equity (run_loop (df @ [row]) (reset p)) \<le> 9000"
  proof -
    have "equity (step row ?s) \<le> 9000" using h by (simp add: run_loop_snoc)
    then have "\<not> circuit_breaker_active (step row ?s)
          \<and> circuit_breaker_active (step row' (step row ?s))"
      using h ps by (intro next_candle) simp_all
    then show ?thesis
      by (simp add: breaker_after_run run_loop_snoc run_loop_snoc2)
  qed
  show ?thesis
    apply (intro conjI impI)
    subgoal by (rule breaker_after_step)
    subgoal using next_candle [of s] by blast
    subgoal using next_candle [of s] by blast
    subgoal by (rule breaker_after_run)
    subgoal using in_run by blast
    subgoal using in_run by blast
    subgoal using in_run by blast
    subgoal using in_run by blast
    done
qed

theorem breaker_trips_on_next_candle_witness:
  "circuit_breaker_dd (params (run_loop [scenario_b_candle_1] (reset scenario_b_params))) = 1 / 10
   \<and> circuit_breaker_dd scenario_b_params = 1 / 10
   \<and> \<not> circuit_breaker_active (run_loop [scenario_b_candle_1] (reset scenario_b_params))
   \<and> peak_equity (run_loop [scenario_b_candle_1] (reset scenario_b_params)) = 10000
   \<and> 9000 < equity (run_loop [scenario_b_candle_1] (reset scenario_b_params))
   \<and> equity (step scenario_b_candle_2
        (run_loop [scenario_b_candle_1] (reset scenario_b_params))) \<le> 9000
   \<and> equity (run_loop ([scenario_b_candle_1] @ [scenario_b_candle_2])
        (reset scenario_b_params)) \<le> 9000
   \<and> \<not> circuit_breaker_active (step scenario_b_candle_2
        (run_loop [scenario_b_candle_1] (reset scenario_b_params)))
   \<and> circuit_breaker_active (step scenario_b_candle_3 (step scenario_b_candle_2
        (run_loop [scenario_b_candle_1] (reset scenario_b_params))))
   \<and> \<not> circuit_breaker_active
         (run_loop ([scenario_b_candle_1] @ [scenario_b_candle_2]) (reset scenario_b_params))
   \<and> circuit_breaker_active
         (run_loop ([scenario_b_candle_1] @ [scenario_b_candle_2, scenario_b_candle_3])
            (reset scenario_b_params))
   \<and> \<not> circuit_breaker_active
         (run scenario_b_params ([scenario_b_candle_1] @ [scenario_b_candle_2]))
   \<and> circuit_breaker_active
         (run scenario_b_params
            ([scenario_b_candle_1] @ [scenario_b_candle_2, scenario_b_candle_3]))"
proof -
  have h: "circuit_breaker_dd (params (run_loop [scenario_b_candle_1] (reset scenario_b_params)))
       = 1 / 10
   \<and> \<not> circuit_breaker_active (run_loop [scenario_b_candle_1] (reset scenario_b_params))
   \<and> peak_equity (run_loop [scenario_b_candle_1] (reset scenario_b_params)) = 10000
   \<and> 9000 < equity (run_loop [scenario_b_candle_1] (reset scenario_b_params))
   \<and> equity (step scenario_b_candle_2
        (run_loop [scenario_b_candle_1] (reset scenario_b_params))) \<le> 9000"
    unfolding scenario_b_run_1 scenario_b_step_2 by (simp add: scenario_b_ledger)
  have g: "circuit_breaker_dd scenario_b_params = 1 / 10
   \<and> equity (run_loop ([scenario_b_candle_1] @ [scenario_b_candle_2])
        (reset scenario_b_params)) \<le> 9000"
    unfolding append_Cons append_Nil scenario_b_run_2
    by (simp add: scenario_b_ledger scenario_b_params_def)
  show ?thesis
    using h g
      breaker_trips_on_next_candle
        [where s = "run_loop [scenario_b_candle_1] (reset scenario_b_params)"
          and row = scenario_b_candle_2 and row' = scenario_b_candle_3
          and p = scenario_b_params and df = "[scenario_b_candle_1]"]
    by blast
qed

text \<open>
  The claim fails on this run: the equity first reaches 9000 or less (it is 8900, under
  the peak 10000) at the second candle, and the breaker is still clear after that
  candle; it is set after the third.  When the second candle is the last one, the run
  ends with the breaker clear.
\<close>

theorem breaker_same_candle_counterexample:
  "circuit_breaker_dd scenario_b_params = 1 / 10
   \<and> equity (run_loop [scenario_b_candle_1] (reset scenario_b_params)) = 10000
   \<and> equity (run_loop [scenario_b_candle_1, scenario_b_candle_2] (reset scenario_b_params))
       = 8900
   \<and> peak_equity (run_loop [scenario_b_candle_1, scenario_b_candle_2] (reset scenario_b_params))
       = 10000
   \<and> \<not> circuit_breaker_active
         (run_loop [scenario_b_candle_1, scenario_b_candle_2] (reset scenario_b_params))
   \<and> circuit_breaker_active
         (run_loop [scenario_b_candle_1, scenario_b_candle_2, scenario_b_candle_3]
            (reset scenario_b_params))
   \<and> \<not> circuit_breaker_active
         (run scenario_b_params [scenario_b_candle_1, scenario_b_candle_2])"
  unfolding run_def Let_def scenario_b_run_1 scenario_b_run_2 scenario_b_run_3
  by (simp add: scenario_b_ledger scenario_b_params_def)


section \<open>The retry policy of a market order\<close>

lemma attempts_range: "[1 ..< MAX_RETRIES + 1] = [1, 2, 3]"
  by (simp add: MAX_RETRIES_def upt_rec)

lemma place_attempts_transient:
  assumes "transient (venue c (calls c))" and "attempt < MAX_RETRIES"
  shows "place_attempts (attempt # rest) c =
           place_attempts rest
             (c\<lparr> calls := Suc (calls c), slept := slept c @ [RETRY_DELAY_BASE ^ attempt] \<rparr>)"
  using assms
  by (auto simp: transient_def Let_def split: reply.splits exn.splits)

lemma place_attempts_exhausted:
  assumes "transient (venue c (calls c))" and "venue c (calls c) = Raises e"
    and "\<not> attempt < MAX_RETRIES"
  shows "place_attempts (attempt # rest) c = (Inl e, c\<lparr> calls := Suc (calls c) \<rparr>)"
  using assms
  by (auto simp: transient_def Let_def split: reply.splits exn.splits)

lemma place_attempts_permanent:
  assumes "venue c (calls c) = Raises (BinanceAPIException code)" and "code \<in> permanent_codes"
  shows "place_attempts (attempt # rest) c =
           (Inl (BinanceAPIException code), c\<lparr> calls := Suc (calls c) \<rparr>)"
  using assms by (simp add: Let_def)

lemma place_attempts_filled:
  assumes "venue c (calls c) = Returns r" and "fills r \<noteq> Some []"
  shows "place_attempts (attempt # rest) c = (Inr (Some r), c\<lparr> calls := Suc (calls c) \<rparr>)"
  using assms by (simp add: Let_def)

lemma place_market_order_loop:
  assumes "symbol \<in> dom (symbol_info c)" and "0 < adjust_quantity c symbol qty"
  shows "place_market_order symbol sd qty c = place_attempts [1 ..< MAX_RETRIES + 1] c"
  using assms by (simp add: place_market_order_def get_symbol_info_def Let_def)


lemma place_attempts_retries:
  assumes "\<forall>j<k. transient (venue c (calls c + j))" and "a + k \<le> MAX_RETRIES"
  shows "place_attempts ([a ..< a + k] @ rest) c =
           place_attempts rest
             (c\<lparr> calls := calls c + k,
                 slept := slept c @ map (\<lambda>j. RETRY_DELAY_BASE ^ j) [a ..< a + k] \<rparr>)"
  using assms
proof (induction k arbitrary: a c)
  case 0
  then show ?case by simp
next
  case (Suc k)
  let ?c = "c\<lparr> calls := Suc (calls c), slept := slept c @ [RETRY_DELAY_BASE ^ a] \<rparr>"
  have first: "transient (venue c (calls c))" using Suc.prems(1) by force
  have lt: "a < MAX_RETRIES" using Suc.prems(2) by simp
  have rest: "\<forall>j<k. transient (venue ?c (calls ?c + j))"
    using Suc.prems(1) by auto
  have bound: "Suc a + k \<le> MAX_RETRIES" using Suc.prems(2) by simp
  have split: "[a ..< a + Suc k] = a # [Suc a ..< Suc a + k]"
    by (simp add: upt_conv_Cons)
  have "place_attempts ([a ..< a + Suc k] @ rest) c
        = place_attempts ([Suc a ..< Suc a + k] @ rest) ?c"
    unfolding split using place_attempts_transient [OF first lt] by simp
  also have "\<dots> = place_attempts rest
      (?c\<lparr> calls := calls ?c + k,
           slept := slept ?c @ map (\<lambda>j. RETRY_DELAY_BASE ^ j) [Suc a ..< Suc a + k] \<rparr>)"
    by (rule Suc.IH [OF rest bound])
  finally show ?case
    unfolding split by simp
qed

lemma attempts_split:
  assumes "k < MAX_RETRIES"
  shows "[1 ..< MAX_RETRIES + 1] = [1 ..< 1 + k] @ Suc k # [Suc (Suc k) ..< MAX_RETRIES + 1]"
proof -
  have e: "1 + k + (MAX_RETRIES - k) = MAX_RETRIES + 1" using assms by simp
  have "[1 ..< 1 + k + (MAX_RETRIES - k)] = [1 ..< 1 + k] @ [1 + k ..< 1 + k + (MAX_RETRIES - k)]"
    by (rule upt_add_eq_append) simp
  then have "[1 ..< MAX_RETRIES + 1] = [1 ..< 1 + k] @ [1 + k ..< MAX_RETRIES + 1]"
    unfolding e .
  moreover have "[1 + k ..< MAX_RETRIES + 1] = Suc k # [Suc (Suc k) ..< MAX_RETRIES + 1]"
    using assms by (simp add: upt_conv_Cons)
  ultimately show ?thesis by simp
qed

lemma place_attempts_after_retries:
  assumes "k < MAX_RETRIES" and "\<forall>j<k. transient (venue c (calls c + j))"
  shows "place_attempts [1 ..< MAX_RETRIES + 1] c =
           place_attempts (Suc k # [Suc (Suc k) ..< MAX_RETRIES + 1])
             (c\<lparr> calls := calls c + k,
                 slept := slept c @ map (\<lambda>j. RETRY_DELAY_BASE ^ j) [1 ..< Suc k] \<rparr>)"
proof -
  have "1 + k \<le> MAX_RETRIES" using assms(1) by simp
  from place_attempts_retries [OF assms(2) this]
  show ?thesis unfolding attempts_split [OF assms(1)] by simp
qed


text \<open>
  C8.  The retry loop of a market order.  A rejection with a permanent code, met at the
  first attempt or after retried ones, is raised at once: the order was requested
  exactly once more than the number of retried failures, and never again.  A retryable
  error (a request error, or an API error with another code) is slept on, 2 to the
  power of the attempt number, and the order is requested again, at most MAX_RETRIES
  times in all; when every attempt failed that way the last error is raised.  A reply
  after retried failures is returned.  With the symbol cached and a positive rounded
  quantity, the placement of a market order is this loop.
\<close>

theorem market_order_retry_policy:
  "(k < MAX_RETRIES \<and> (\<forall>j<k. transient (venue c (calls c + j)))
      \<and> venue c (calls c + k) = Raises (BinanceAPIException code) \<and> code \<in> permanent_codes
    \<longrightarrow> place_attempts [1 ..< MAX_RETRIES + 1] c =
          (Inl (BinanceAPIException code),
           c\<lparr> calls := calls c + Suc k,
               slept := slept c @ map (\<lambda>j. RETRY_DELAY_BASE ^ j) [1 ..< Suc k] \<rparr>))
   \<and> ((\<forall>j<MAX_RETRIES. transient (venue c (calls c + j)))
      \<and> venue c (calls c + (MAX_RETRIES - 1)) = Raises e
    \<longrightarrow> place_attempts [1 ..< MAX_RETRIES + 1] c =
          (Inl e,
           c\<lparr> calls := calls c + MAX_RETRIES,
               slept := slept c @ map (\<lambda>j. RETRY_DELAY_BASE ^ j) [1 ..< MAX_RETRIES] \<rparr>))
   \<and> (k < MAX_RETRIES \<and> (\<forall>j<k. transient (venue c (calls c + j)))
      \<and> venue c (calls c + k) = Returns r \<and> fills r \<noteq> Some []
    \<longrightarrow> place_attempts [1 ..< MAX_RETRIES + 1] c =
          (Inr (Some r),
           c\<lparr> calls := calls c + Suc k,
               slept := slept c @ map (\<lambda>j. RETRY_DELAY_BASE ^ j) [1 ..< Suc k] \<rparr>))
   \<and> (symbol \<in> dom (symbol_info c) \<and> 0 < adjust_quantity c symbol qty
    \<longrightarrow> place_market_order symbol sd qty c = place_attempts [1 ..< MAX_RETRIES + 1] c)"
proof (intro conjI impI)
  assume h: "k < MAX_RETRIES \<and> (\<forall>j<k. transient (venue c (calls c + j)))
      \<and> venue c (calls c + k) = Raises (BinanceAPIException code) \<and> code \<in> permanent_codes"
  let ?c = "c\<lparr> calls := calls c + k,
                slept := slept c @ map (\<lambda>j. RETRY_DELAY_BASE ^ j) [1 ..< Suc k] \<rparr>"
  have v: "venue ?c (calls ?c) = Raises (BinanceAPIException code)" using h by simp
  have perm: "code \<in> permanent_codes" using h by simp
  have k: "k < MAX_RETRIES" and pre: "\<forall>j<k. transient (venue c (calls c + j))"
    using h by simp_all
  have fin: "?c\<lparr> calls := Suc (calls ?c) \<rparr> =
      c\<lparr> calls := calls c + Suc k,
          slept := slept c @ map (\<lambda>j. RETRY_DELAY_BASE ^ j) [1 ..< Suc k] \<rparr>"
    by (simp del: upt_Suc)
  show "place_attempts [1 ..< MAX_RETRIES + 1] c =
          (Inl (BinanceAPIException code),
           c\<lparr> calls := calls c + Suc k,
               slept := slept c @ map (\<lambda>j. RETRY_DELAY_BASE ^ j) [1 ..< Suc k] \<rparr>)"
    unfolding place_attempts_after_retries [OF k pre] place_attempts_permanent [OF v perm] fin
    by (rule refl)
next
  assume h: "(\<forall>j<MAX_RETRIES. transient (venue c (calls c + j)))
      \<and> venue c (calls c + (MAX_RETRIES - 1)) = Raises e"
  let ?k = "MAX_RETRIES - 1"
  let ?c = "c\<lparr> calls := calls c + ?k,
                slept := slept c @ map (\<lambda>j. RETRY_DELAY_BASE ^ j) [1 ..< Suc ?k] \<rparr>"
  have k: "?k < MAX_RETRIES" by (simp add: MAX_RETRIES_def)
  have pre: "\<forall>j<?k. transient (venue c (calls c + j))" using h by simp
  have "transient (venue c (calls c + ?k))" using h k by blast
  then have t: "transient (venue ?c (calls ?c))" by simp
  have r: "venue ?c (calls ?c) = Raises e" using h by simp
  have n: "\<not> Suc ?k < MAX_RETRIES" by (simp add: MAX_RETRIES_def)
  have fin: "?c\<lparr> calls := Suc (calls ?c) \<rparr> =
      c\<lparr> calls := calls c + MAX_RETRIES,
          slept := slept c @ map (\<lambda>j. RETRY_DELAY_BASE ^ j) [1 ..< MAX_RETRIES] \<rparr>"
    by (simp add: MAX_RETRIES_def del: upt_Suc)
  show "place_attempts [1 ..< MAX_RETRIES + 1] c =
          (Inl e,
           c\<lparr> calls := calls c + MAX_RETRIES,
               slept := slept c @ map (\<lambda>j. RETRY_DELAY_BASE ^ j) [1 ..< MAX_RETRIES] \<rparr>)"
    unfolding place_attempts_after_retries [OF k pre] place_attempts_exhausted [OF t r n] fin
    by (rule refl)
next
  assume h: "k < MAX_RETRIES \<and> (\<forall>j<k. transient (venue c (calls c + j)))
      \<and> venue c (calls c + k) = Returns r \<and> fills r \<noteq> Some []"
  let ?c = "c\<lparr> calls := calls c + k,
                slept := slept c @ map (\<lambda>j. RETRY_DELAY_BASE ^ j) [1 ..< Suc k] \<rparr>"
  have v: "venue ?c (calls ?c) = Returns r" using h by simp
  have f: "fills r \<noteq> Some []" using h by simp
  have k: "k < MAX_RETRIES" and pre: "\<forall>j<k. transient (venue c (calls c + j))"
    using h by simp_all
  have fin: "?c\<lparr> calls := Suc (calls ?c) \<rparr> =
      c\<lparr> calls := calls c + Suc k,
          slept := slept c @ map (\<lambda>j. RETRY_DELAY_BASE ^ j) [1 ..< Suc k] \<rparr>"
    by (simp del: upt_Suc)
  show "place_attempts [1 ..< MAX_RETRIES + 1] c =
          (Inr (Some r),
           c\<lparr> calls := calls c + Suc k,
               slept := slept c @ map (\<lambda>j. RETRY_DELAY_BASE ^ j) [1 ..< Suc k] \<rparr>)"
    unfolding place_attempts_after_retries [OF k pre] place_attempts_filled [OF v f] fin
    by (rule refl)
next
  assume "symbol \<in> dom (symbol_info c) \<and> 0 < adjust_quantity c symbol qty"
  then show "place_market_order symbol sd qty c = place_attempts [1 ..< MAX_RETRIES + 1] c"
    by (simp add: place_market_order_loop)
qed

theorem market_order_retry_policy_witness:
  "venue (fresh_connector rejecting_venue) 0 = Raises (BinanceAPIException (- 2010))
   \<and> - 2010 \<in> permanent_codes
   \<and> place_attempts [1 ..< MAX_RETRIES + 1] (fresh_connector rejecting_venue) =
       (Inl (BinanceAPIException (- 2010)),
        (fresh_connector rejecting_venue)\<lparr> calls := 1, slept := [] \<rparr>)
   \<and> transient (venue (fresh_connector failing_venue) 0)
   \<and> transient (venue (fresh_connector failing_venue) 1)
   \<and> transient (venue (fresh_connector failing_venue) 2)
   \<and> place_attempts [1 ..< MAX_RETRIES + 1] (fresh_connector failing_venue) =
       (Inl BinanceRequestException,
        (fresh_connector failing_venue)\<lparr> calls := 3, slept := [2, 4] \<rparr>)
   \<and> transient (venue (fresh_connector recovering_venue) 0)
   \<and> transient (venue (fresh_connector recovering_venue) 1)
   \<and> venue (fresh_connector recovering_venue) 2 = Returns filled_order
   \<and> place_attempts [1 ..< MAX_RETRIES + 1] (fresh_connector recovering_venue) =
       (Inr (Some filled_order),
        (fresh_connector recovering_venue)\<lparr> calls := 3, slept := [2, 4] \<rparr>)
   \<and> 0 < adjust_quantity (fresh_connector failing_venue) ''BTCUSDT'' (1 / 2)
   \<and> place_market_order ''BTCUSDT'' BUY (1 / 2) (fresh_connector failing_venue) =
       (Inl BinanceRequestException,
        (fresh_connector failing_venue)\<lparr> calls := 3, slept := [2, 4] \<rparr>)"
proof -
  let ?rejecting = "fresh_connector rejecting_venue"
  let ?failing = "fresh_connector failing_venue"
  let ?recovering = "fresh_connector recovering_venue"
  have h0: "0 < MAX_RETRIES \<and> (\<forall>j<0. transient (venue ?rejecting (calls ?rejecting + j)))
      \<and> venue ?rejecting (calls ?rejecting + 0) = Raises (BinanceAPIException (- 2010))
      \<and> - 2010 \<in> permanent_codes"
    by (simp add: MAX_RETRIES_def permanent_codes_def fresh_connector_def rejecting_venue_def)
  have h2: "(\<forall>j<MAX_RETRIES. transient (venue ?failing (calls ?failing + j)))
      \<and> venue ?failing (calls ?failing + (MAX_RETRIES - 1)) = Raises BinanceRequestException"
    by (simp add: transient_def fresh_connector_def failing_venue_def)
  have h3: "2 < MAX_RETRIES \<and> (\<forall>j<2. transient (venue ?recovering (calls ?recovering + j)))
      \<and> venue ?recovering (calls ?recovering + 2) = Returns filled_order
      \<and> fills filled_order \<noteq> Some []"
    by (simp add: MAX_RETRIES_def transient_def permanent_codes_def fresh_connector_def
          recovering_venue_def filled_order_def)
  have h4: "''BTCUSDT'' \<in> dom (symbol_info ?failing)
      \<and> 0 < adjust_quantity ?failing ''BTCUSDT'' (1 / 2)"
    by (simp add: adjust_quantity_def round_down_def fresh_connector_def)
  have t: "transient (venue ?failing 0) \<and> transient (venue ?failing 1)
      \<and> transient (venue ?failing 2)
      \<and> transient (venue ?recovering 0) \<and> transient (venue ?recovering 1)
      \<and> venue ?recovering 2 = Returns filled_order
      \<and> venue ?rejecting 0 = Raises (BinanceAPIException (- 2010))"
    by (simp add: transient_def permanent_codes_def fresh_connector_def failing_venue_def
          recovering_venue_def rejecting_venue_def)
  have c: "calls ?rejecting = 0" "slept ?rejecting = []" "calls ?failing = 0"
    "slept ?failing = []" "calls ?recovering = 0" "slept ?recovering = []"
    by (simp_all add: fresh_connector_def)
  have a0: "place_attempts [1 ..< MAX_RETRIES + 1] ?rejecting =
       (Inl (BinanceAPIException (- 2010)), ?rejecting\<lparr> calls := 1, slept := [] \<rparr>)"
    using h0 market_order_retry_policy [where c = ?rejecting and k = 0 and code = "- 2010"]
    by (simp add: c)
  have a2: "place_attempts [1 ..< MAX_RETRIES + 1] ?failing =
       (Inl BinanceRequestException, ?failing\<lparr> calls := 3, slept := [2, 4] \<rparr>)"
    using h2 market_order_retry_policy [where c = ?failing and e = BinanceRequestException]
    by (simp add: c MAX_RETRIES_def RETRY_DELAY_BASE_def upt_rec)
  have a3: "place_attempts [1 ..< MAX_RETRIES + 1] ?recovering =
       (Inr (Some filled_order), ?recovering\<lparr> calls := 3, slept := [2, 4] \<rparr>)"
    using h3 market_order_retry_policy [where c = ?recovering and k = 2 and r = filled_order]
    by (simp add: c MAX_RETRIES_def RETRY_DELAY_BASE_def upt_rec)
  have a4: "place_market_order ''BTCUSDT'' BUY (1 / 2) ?failing =
       place_attempts [1 ..< MAX_RETRIES + 1] ?failing"
    using h4 market_order_retry_policy [where c = ?failing and symbol = "''BTCUSDT''"
        and qty = "1 / 2" and sd = BUY]
    by blast
  show ?thesis
    using h0 h4 t a0 a2 a3 a4 by simp
qed


section \<open>The persisted live state\<close>

lemma as_dicts_objects: "as_dicts (JArr (map JObj ps)) = Some ps"
proof -
  have "list_all (\<lambda>j. as_dict j \<noteq> None) (map JObj ps)"
    by (simp add: list_all_iff)
  moreover have "map (\<lambda>j. the (as_dict j)) (map JObj ps) = ps"
    by (induction ps) simp_all
  ultimately show ?thesis by simp
qed

lemma as_date_document:
  "as_date (case d of None \<Rightarrow> JNull | Some x \<Rightarrow> JStr x) = Some d"
  by (cases d) simp_all

lemma load_state_document:
  "load_state (Document (state_document lt)) lt0 =
     Some (lt0\<lparr> lt_positions := lt_positions lt, initial_equity := initial_equity lt,
               lt_peak_equity := lt_peak_equity lt, lt_daily_pnl := lt_daily_pnl lt,
               daily_date := daily_date lt, circuit_breaker := circuit_breaker lt \<rparr>)"
  by (simp add: load_state_def state_document_def get_def as_dicts_objects as_date_document
           del: as_dicts.simps)

text \<open>
  C9.  Writing the state document and reading it back is a round trip.  After a write
  that succeeded, loading into any trader, and so constructing a new trader on that
  file, gives a trader whose open positions, initial and peak equity, daily profit and
  loss, daily date and breaker flag are those of the trader that was saved; the fields
  the document does not carry are the ones the loading trader had.
\<close>

theorem state_round_trip:
  "load_state (save_state Written lt f) lt0 =
     Some (lt0\<lparr> lt_positions := lt_positions lt, initial_equity := initial_equity lt,
               lt_peak_equity := lt_peak_equity lt, lt_daily_pnl := lt_daily_pnl lt,
               daily_date := daily_date lt, circuit_breaker := circuit_breaker lt \<rparr>)
   \<and> LiveTrader_init (save_state Written lt f) key secret name a b c d =
       Some ((LiveTrader_fields key secret name a b c d)
               \<lparr> lt_positions := lt_positions lt, initial_equity := initial_equity lt,
                 lt_peak_equity := lt_peak_equity lt, lt_daily_pnl := lt_daily_pnl lt,
                 daily_date := daily_date lt, circuit_breaker := circuit_breaker lt \<rparr>)
   \<and> map_option lt_positions (load_state (save_state Written lt f) lt0) = Some (lt_positions lt)
   \<and> map_option lt_peak_equity (load_state (save_state Written lt f) lt0) = Some (lt_peak_equity lt)
   \<and> map_option lt_daily_pnl (load_state (save_state Written lt f) lt0) = Some (lt_daily_pnl lt)
   \<and> map_option daily_date (load_state (save_state Written lt f) lt0) = Some (daily_date lt)
   \<and> map_option circuit_breaker (load_state (save_state Written lt f) lt0)
       = Some (circuit_breaker lt)"
  by (simp add: save_state_def LiveTrader_init_def load_state_document)


section \<open>Constructor defaults\<close>

lemma load_state_keeps_settings:
  assumes "load_state f lt0 = Some lt"
  shows "lt_tp_pct lt = lt_tp_pct lt0 \<and> lt_sl_pct lt = lt_sl_pct lt0
         \<and> ema_fast lt = ema_fast lt0 \<and> ema_slow lt = ema_slow lt0"
proof (cases f)
  case NoFile
  then show ?thesis using assms by (simp add: load_state_def)
next
  case Unreadable
  then show ?thesis using assms by (simp add: load_state_def)
next
  case (Document j)
  show ?thesis
  proof (cases j)
    case (JObj state)
    then show ?thesis
      using assms Document
      by (auto simp: load_state_def split: option.splits)
  qed (use assms Document in \<open>simp_all add: load_state_def\<close>)
qed

lemma py_or_nonzero: "d \<noteq> 0 \<Longrightarrow> py_or x d \<noteq> 0"
  by (simp add: py_or_def split: option.splits)

lemma py_or_cases [simp]:
  "py_or None d = d" "py_or (Some 0) d = d" "v \<noteq> 0 \<Longrightarrow> py_or (Some v) d = v"
  by (simp_all add: py_or_def)

text \<open>
  C10.  Defaults are applied with \<open>or\<close>.  In the constructors of the live risk manager
  and of the live trader an argument equal to zero is replaced by the configured
  default, as a missing one is; a non-zero argument is kept; and since the configured
  defaults are not zero, no construction yields max_open_trades = 0,
  risk_per_trade = 0 or tp_pct = 0 (nor a zero in the other fields set this way).
\<close>

theorem zero_arguments_fall_back:
  "rm_initial_capital (RiskManager_init (Some 0) rpt mdl mot cbd) = INITIAL_CAPITAL
   \<and> rm_risk_per_trade (RiskManager_init ic (Some 0) mdl mot cbd) = RISK_PER_TRADE
   \<and> rm_max_daily_loss (RiskManager_init ic rpt (Some 0) mot cbd) = MAX_DAILY_LOSS
   \<and> rm_max_open_trades (RiskManager_init ic rpt mdl (Some 0) cbd) = MAX_OPEN_TRADES
   \<and> rm_circuit_breaker_dd (RiskManager_init ic rpt mdl mot (Some 0)) = CIRCUIT_BREAKER_DD
   \<and> rm_max_open_trades (RiskManager_init ic rpt mdl None cbd) = MAX_OPEN_TRADES
   \<and> (n \<noteq> 0 \<longrightarrow> rm_max_open_trades (RiskManager_init ic rpt mdl (Some n) cbd) = n)
   \<and> (x \<noteq> 0 \<longrightarrow> rm_risk_per_trade (RiskManager_init ic (Some x) mdl mot cbd) = x)
   \<and> rm_max_open_trades (RiskManager_init ic rpt mdl mot cbd) \<noteq> 0
   \<and> rm_risk_per_trade (RiskManager_init ic rpt mdl mot cbd) \<noteq> 0
   \<and> rm_initial_capital (RiskManager_init ic rpt mdl mot cbd) \<noteq> 0
   \<and> rm_max_daily_loss (RiskManager_init ic rpt mdl mot cbd) \<noteq> 0
   \<and> rm_circuit_breaker_dd (RiskManager_init ic rpt mdl mot cbd) \<noteq> 0
   \<and> lt_tp_pct (LiveTrader_fields key secret name a b (Some 0) d) = TP_PCT
   \<and> lt_sl_pct (LiveTrader_fields key secret name a b c (Some 0)) = SL_PCT
   \<and> ema_fast (LiveTrader_fields key secret name (Some 0) b c d) = EMA_FAST
   \<and> ema_slow (LiveTrader_fields key secret name a (Some 0) c d) = EMA_SLOW
   \<and> (x \<noteq> 0 \<longrightarrow> lt_tp_pct (LiveTrader_fields key secret name a b (Some x) d) = x)
   \<and> (LiveTrader_init f key secret name a b (Some 0) d = Some lt \<longrightarrow> lt_tp_pct lt = TP_PCT)
   \<and> (LiveTrader_init f key secret name a b c d = Some lt \<longrightarrow>
         lt_tp_pct lt \<noteq> 0 \<and> lt_sl_pct lt \<noteq> 0 \<and> ema_fast lt \<noteq> 0 \<and> ema_slow lt \<noteq> 0)"
proof -
  have rm: "rm_max_open_trades (RiskManager_init ic rpt mdl mot cbd) \<noteq> 0
   \<and> rm_risk_per_trade (RiskManager_init ic rpt mdl mot cbd) \<noteq> 0
   \<and> rm_initial_capital (RiskManager_init ic rpt mdl mot cbd) \<noteq> 0
   \<and> rm_max_daily_loss (RiskManager_init ic rpt mdl mot cbd) \<noteq> 0
   \<and> rm_circuit_breaker_dd (RiskManager_init ic rpt mdl mot cbd) \<noteq> 0"
    by (simp add: RiskManager_init_def Let_def py_or_nonzero MAX_OPEN_TRADES_def
          RISK_PER_TRADE_def INITIAL_CAPITAL_def MAX_DAILY_LOSS_def CIRCUIT_BREAKER_DD_def)
  have fields: "lt_tp_pct (LiveTrader_fields key secret name a b c d) \<noteq> 0
     \<and> lt_sl_pct (LiveTrader_fields key secret name a b c d) \<noteq> 0
     \<and> ema_fast (LiveTrader_fields key secret name a b c d) \<noteq> 0
     \<and> ema_slow (LiveTrader_fields key secret name a b c d) \<noteq> 0"
    by (simp add: LiveTrader_fields_def py_or_nonzero TP_PCT_def SL_PCT_def EMA_FAST_def
          EMA_SLOW_def)
  have init0: "lt_tp_pct lt = TP_PCT"
    if "LiveTrader_init f key secret name a b (Some 0) d = Some lt"
    using load_state_keeps_settings [OF that [unfolded LiveTrader_init_def]]
    by (simp add: LiveTrader_fields_def)
  have init: "lt_tp_pct lt \<noteq> 0 \<and> lt_sl_pct lt \<noteq> 0 \<and> ema_fast lt \<noteq> 0 \<and> ema_slow lt \<noteq> 0"
    if "LiveTrader_init f key secret name a b c d = Some lt"
    using load_state_keeps_settings [OF that [unfolded LiveTrader_init_def]] fields
    by simp
  show ?thesis
    using rm init0 init
    by (simp add: RiskManager_init_def LiveTrader_fields_def Let_def)
qed

theorem zero_arguments_fall_back_witness:
  "(5 :: int) \<noteq> 0
   \<and> rm_max_open_trades (RiskManager_init None None None (Some 5) None) = 5
   \<and> (1 / 50 :: real) \<noteq> 0
   \<and> rm_risk_per_trade (RiskManager_init None (Some (1 / 50)) None None None) = 1 / 50
   \<and> lt_tp_pct (LiveTrader_fields ''k'' ''s'' ''btcusdt'' None None (Some (1 / 50)) None) = 1 / 50
   \<and> LiveTrader_init NoFile ''k'' ''s'' ''btcusdt'' None None (Some 0) None
       = Some (LiveTrader_fields ''k'' ''s'' ''btcusdt'' None None (Some 0) None)
   \<and> lt_tp_pct (LiveTrader_fields ''k'' ''s'' ''btcusdt'' None None (Some 0) None) = TP_PCT
   \<and> lt_tp_pct (LiveTrader_fields ''k'' ''s'' ''btcusdt'' None None (Some 0) None) \<noteq> 0"
proof -
  have h: "LiveTrader_init NoFile ''k'' ''s'' ''btcusdt'' None None (Some 0) None
       = Some (LiveTrader_fields ''k'' ''s'' ''btcusdt'' None None (Some 0) None)"
    by (simp add: LiveTrader_init_def load_state_def)
  have n: "(5 :: int) \<noteq> 0 \<and> (1 / 50 :: real) \<noteq> 0" by simp
  show ?thesis
    using h n
      zero_arguments_fall_back [where n = 5 and x = "1 / 50" and f = NoFile and key = "''k''"
        and secret = "''s''" and name = "''btcusdt''" and a = None and b = None and d = None
        and c = "Some 0" and ic = None and rpt = None and mdl = None and mot = None
        and cbd = None
        and lt = "LiveTrader_fields ''k'' ''s'' ''btcusdt'' None None (Some 0) None"]
    by blast
qed

end
